theory Spec2Isabelle
  imports Complex_Main "HOL-Library.Word"
begin

section \<open>The SDL2 sound engine of Stella (src/common/SoundSDL2.cxx)\<close>

text \<open>
  The class \<open>SoundSDL2\<close> is embedded as a record of its members (instance members and
  the class-level statics of the WAV overlay alike) and each member function as a
  function from the record to its result and the updated record. What the class reaches
  through SDL or through collaborators whose sources are elsewhere (the audio settings,
  the fragment queue, the resamplers, the console) enters as a record of oracles
  \<open>Env\<close>. Exceptions and null dereferences are values of the type \<open>error\<close>.
  Logger output and on-screen messages are diagnostics and are left out, and the wording
  of the about string is an oracle. \<open>SDL_LockAudioDevice\<close> and \<open>SDL_UnlockAudioDevice\<close>
  only order threads and have no effect on the sequential state. The contents of sample
  memory that only SDL reads or writes (the WAV data, the conversion buffer, the overlay
  output stream) are not tracked: pointers into it are addresses.
\<close>

subsection \<open>Machine types\<close>

type_synonym uInt8 = "8 word"
type_synonym uInt16 = "16 word"
type_synonym uInt32 = "32 word"
type_synonym Int16 = "16 word"

text \<open>A C++ \<open>int\<close>: 32 bits, read through \<open>sint\<close> where the sign matters.\<close>
type_synonym cint = "32 word"

text \<open>A nullable pointer into byte memory: \<open>None\<close> is \<open>nullptr\<close>.\<close>
type_synonym ptr = "nat option"

definition ptr_add :: "ptr \<Rightarrow> int \<Rightarrow> ptr" where
  "ptr_add p i = map_option (\<lambda>a. nat (int a + i)) p"

datatype error = runtime_error string | out_of_range | null_dereference

subsection \<open>SDL types\<close>

type_synonym SDL_AudioDeviceID = uInt32

datatype SDL_AudioStatus = SDL_AUDIO_STOPPED | SDL_AUDIO_PLAYING | SDL_AUDIO_PAUSED

text \<open>The function registered in \<open>SDL_AudioSpec::callback\<close>.\<close>
datatype SDL_AudioCallback = no_callback | device_callback | wav_callback

record SDL_AudioSpec =
  freq :: cint
  format :: uInt16
  channels :: uInt8
  silence :: uInt8
  samples :: uInt16
  callback_fn :: SDL_AudioCallback

definition AUDIO_F32SYS :: uInt16 where
  "AUDIO_F32SYS = 0x8120"

definition SDL_AUDIO_ALLOW_FREQUENCY_CHANGE :: cint where
  "SDL_AUDIO_ALLOW_FREQUENCY_CHANGE = 1"

subsection \<open>Collaborators\<close>

datatype ResamplingQuality = nearestNeightbour | lanczos_2 | lanczos_3 | other_quality

text \<open>
  Modelled from the spec: \<open>AudioSettings\<close> (AudioSettings.hxx is not among the sources) is
  the configuration the engine reads and writes: each getter returns the field of its
  name and \<open>setVolume\<close>/\<open>setEnabled\<close> store into it. \<open>other_quality\<close> stands for
  an enumeration value outside the three named ones.
\<close>
record AudioSettings =
  sampleRate :: uInt32
  fragmentSize :: uInt32
  device :: uInt32
  enabled :: bool
  volume :: uInt32
  resamplingQuality :: ResamplingQuality

text \<open>
  Modelled from the spec: \<open>EmulationTiming\<close> (not among the sources) supplies the
  emulation's sample rate and the configured prebuffer fragment count.
\<close>
record EmulationTiming =
  audioSampleRate :: uInt32
  prebufferFragmentCount :: uInt32

type_synonym fragment = "Int16 list"

text \<open>
  Modelled from the spec: \<open>AudioQueue\<close> (not among the sources) holds the ready-to-play
  fragments and exposes its size, a dequeue that yields the next fragment or none when
  it is empty (taking back the fragment handed out before, for recycling), and the
  toggle of overflow tolerance.
\<close>
record AudioQueue =
  fragments :: "fragment list"
  queueFragmentSize :: uInt32
  queueIsStereo :: bool
  overflowsIgnored :: bool

definition queue_size :: "AudioQueue \<Rightarrow> uInt32" where
  "queue_size q = of_nat (length (fragments q))"

definition dequeue :: "AudioQueue \<Rightarrow> fragment option \<Rightarrow> fragment option \<times> AudioQueue" where
  "dequeue q current =
     (case fragments q of
        [] \<Rightarrow> (None, q)
      | f # fs \<Rightarrow> (Some f, q\<lparr>fragments := fs\<rparr>))"

definition ignoreOverflows :: "bool \<Rightarrow> AudioQueue \<Rightarrow> AudioQueue" where
  "ignoreOverflows b q = q\<lparr>overflowsIgnored := b\<rparr>"

record Format =
  formatSampleRate :: uInt32
  formatFragmentSize :: uInt32
  formatStereo :: bool

text \<open>
  Modelled from the spec: a resampler's \<open>fillFragment\<close> (SimpleResampler and
  LanczosResampler are not among the sources) has no side effect beyond invoking the
  pull function it was constructed with. One call is therefore a finite dialogue: it
  either finishes with the float cells it left in the stream and its next internal
  state, or asks for the next fragment and continues with the answer.
\<close>
datatype ('f, 'r) fill =
    Filled "'f list" 'r
  | NextFragment "fragment option \<Rightarrow> ('f, 'r) fill"

subsection \<open>The state of the engine\<close>

record ('f, 'r) SoundSDL2 =
  myAudioSettings :: AudioSettings
  myIsInitializedFlag :: bool
  myVolume :: uInt32
  myVolumeFactor :: 'f
  myDevices :: "(string \<times> uInt32) list"
  myDeviceId :: uInt32
  myDevice :: SDL_AudioDeviceID
  myHardwareSpec :: SDL_AudioSpec
  myMuteState :: bool
  myAudioQueue :: "AudioQueue option"
  myEmulationTiming :: "EmulationTiming option"
  myCurrentFragment :: "fragment option"
  myUnderrun :: bool
  myResampler :: "'r option"
  myAboutString :: string
  myWavFilename :: string
  myWavLength :: uInt32
  myWavDevice :: SDL_AudioDeviceID
  myWavBuffer :: ptr
  myWavVolumeFactor :: 'f
  myWavSpec :: SDL_AudioSpec
  myWavPos :: ptr
  myWavLen :: uInt32
  myWavSpeed :: 'f
  myWavCvtBuffer :: ptr
  myWavCvtBufferSize :: uInt32
  sdlStatus :: "SDL_AudioDeviceID \<Rightarrow> SDL_AudioStatus"

text \<open>
  \<open>sdlStatus\<close> is SDL's own record of its audio devices, as
  \<open>SDL_GetAudioDeviceStatus\<close> reports it: a device that is not open is stopped, an
  open one is paused or playing.

  The oracles. \<open>'f\<close> is the type of floating-point values (\<open>float\<close> and \<open>double\<close>
  alike) with its conversions and arithmetic; \<open>'r\<close> is the internal state of a
  resampler. \<open>RESAMPLE_WAV\<close> tells whether the macro of that name is defined in the
  build. \<open>SDL_OpenAudioDevice\<close> returns the device id (0 on failure) and what it left
  in \<open>*obtained\<close> (given what was there; \<open>None\<close> for a null \<open>obtained\<close>).
  \<open>SDL_LoadWAV\<close> returns the spec, buffer address and length of the loaded file, or
  \<open>None\<close> when it returns \<open>NULL\<close>. \<open>SDL_BuildAudioCVT\<close> returns the \<open>len_mult\<close> it
  computes. \<open>initializeAudio\<close> is \<open>Console::initializeAudio\<close> and \<open>BSPF_clamp\<close> is
  \<open>BSPF::clamp\<close> (bspf.hxx is not among the sources). \<open>aboutText\<close> is the text that
  \<open>about\<close> formats from the state.
\<close>
record ('f, 'r) Env =
  RESAMPLE_WAV :: bool
  float_of_int :: "int \<Rightarrow> 'f"
  fdiv :: "'f \<Rightarrow> 'f \<Rightarrow> 'f"
  fmul :: "'f \<Rightarrow> 'f \<Rightarrow> 'f"
  fround :: "'f \<Rightarrow> cint"
  SDL_OpenAudioDevice ::
    "string option \<Rightarrow> SDL_AudioSpec \<Rightarrow> SDL_AudioSpec option \<Rightarrow> cint
       \<Rightarrow> SDL_AudioDeviceID \<times> SDL_AudioSpec option"
  SDL_LoadWAV :: "string \<Rightarrow> (SDL_AudioSpec \<times> nat \<times> uInt32) option"
  SDL_BuildAudioCVT :: "uInt16 \<Rightarrow> uInt8 \<Rightarrow> cint \<Rightarrow> cint \<Rightarrow> cint"
  SDL_malloc :: "uInt32 \<Rightarrow> ptr"
  SimpleResampler :: "Format \<Rightarrow> Format \<Rightarrow> 'r"
  LanczosResampler :: "Format \<Rightarrow> Format \<Rightarrow> nat \<Rightarrow> 'r"
  fillFragment :: "'r \<Rightarrow> uInt32 \<Rightarrow> ('f, 'r) fill"
  initializeAudio :: "('f, 'r) SoundSDL2 \<Rightarrow> ('f, 'r) SoundSDL2"
  BSPF_clamp :: "uInt32 \<Rightarrow> uInt32 \<Rightarrow> uInt32 \<Rightarrow> uInt32"
  aboutText :: "('f, 'r) SoundSDL2 \<Rightarrow> string"

subsection \<open>SDL device operations\<close>

definition SDL_PauseAudioDevice ::
  "SDL_AudioDeviceID \<Rightarrow> bool \<Rightarrow> ('f, 'r) SoundSDL2 \<Rightarrow> ('f, 'r) SoundSDL2" where
  "SDL_PauseAudioDevice dev pause_on s =
     (if sdlStatus s dev = SDL_AUDIO_STOPPED then s
      else s\<lparr>sdlStatus := (sdlStatus s)
                (dev := if pause_on then SDL_AUDIO_PAUSED else SDL_AUDIO_PLAYING)\<rparr>)"

definition SDL_CloseAudioDevice ::
  "SDL_AudioDeviceID \<Rightarrow> ('f, 'r) SoundSDL2 \<Rightarrow> ('f, 'r) SoundSDL2" where
  "SDL_CloseAudioDevice dev s = s\<lparr>sdlStatus := (sdlStatus s)(dev := SDL_AUDIO_STOPPED)\<rparr>"

text \<open>A device that \<open>SDL_OpenAudioDevice\<close> has just opened starts paused.\<close>
definition sdl_opened ::
  "SDL_AudioDeviceID \<Rightarrow> ('f, 'r) SoundSDL2 \<Rightarrow> ('f, 'r) SoundSDL2" where
  "sdl_opened dev s =
     (if dev = 0 then s else s\<lparr>sdlStatus := (sdlStatus s)(dev := SDL_AUDIO_PAUSED)\<rparr>)"

text \<open>
  \<open>myDeviceId ? myDevices.at(myDeviceId).first.c_str() : nullptr\<close>; \<open>at\<close> throws
  \<open>std::out_of_range\<close>.
\<close>
definition deviceName :: "('f, 'r) SoundSDL2 \<Rightarrow> error + string option" where
  "deviceName s =
     (if myDeviceId s \<noteq> 0 then
        (if unat (myDeviceId s) < length (myDevices s)
         then Inr (Some (fst (myDevices s ! unat (myDeviceId s))))
         else Inl out_of_range)
      else Inr None)"

subsection \<open>The WAV overlay\<close>

text \<open>
  The block of \<open>playWav\<close> under the comment "Load WAV file": the result is \<open>False\<close>
  where the source returns \<open>false\<close> because \<open>SDL_LoadWAV\<close> returned \<open>nullptr\<close>.
\<close>
definition loadWav ::
  "('f, 'r) Env \<Rightarrow> string \<Rightarrow> ('f, 'r) SoundSDL2 \<Rightarrow> bool \<times> ('f, 'r) SoundSDL2" where
  "loadWav E fileName s =
     (if fileName \<noteq> myWavFilename s \<or> myWavBuffer s = None then
        (let s1 = (if myWavBuffer s \<noteq> None then s\<lparr>myWavBuffer := None\<rparr> else s) in
         case SDL_LoadWAV E fileName of
           None \<Rightarrow> (False, s1)
         | Some (spec, buf, n) \<Rightarrow>
             (True, s1\<lparr>myWavSpec := spec\<lparr>callback_fn := wav_callback\<rparr>,
                       myWavBuffer := Some buf,
                       myWavLength := n\<rparr>))
      else (True, s))"

definition playWav ::
  "('f, 'r) Env \<Rightarrow> string \<Rightarrow> uInt32 \<Rightarrow> uInt32 \<Rightarrow> ('f, 'r) SoundSDL2
     \<Rightarrow> error + (bool \<times> ('f, 'r) SoundSDL2)" where
  "playWav E fileName position length' s =
     (case loadWav E fileName s of
        (False, s1) \<Rightarrow> Inr (False, s1)
      | (True, s1) \<Rightarrow>
          if position > myWavLength s1 then Inr (False, s1)
          else
            (let s2 = s1\<lparr>myWavFilename := fileName,
                         myWavLen := (if length' \<noteq> 0
                                      then min length' (myWavLength s1 - position)
                                      else myWavLength s1),
                         myWavPos := ptr_add (myWavBuffer s1) (uint position)\<rparr>
             in if myWavDevice s2 = 0 then
                  (case deviceName s2 of
                     Inl e \<Rightarrow> Inl e
                   | Inr dname \<Rightarrow>
                       (let dev = fst (SDL_OpenAudioDevice E dname (myWavSpec s2) None 0);
                            s3 = sdl_opened dev (s2\<lparr>myWavDevice := dev\<rparr>)
                        in if dev = 0 then Inr (False, s3)
                           else Inr (True, SDL_PauseAudioDevice dev False s3)))
                else Inr (True, s2)))"

definition stopWav :: "('f, 'r) SoundSDL2 \<Rightarrow> ('f, 'r) SoundSDL2" where
  "stopWav s =
     (let s1 = (if myWavBuffer s \<noteq> None
                then (SDL_CloseAudioDevice (myWavDevice s) (s\<lparr>myWavLen := 0\<rparr>))
                       \<lparr>myWavDevice := 0, myWavBuffer := None\<rparr>
                else s)
      in if myWavCvtBuffer s1 \<noteq> None
         then s1\<lparr>myWavCvtBuffer := None, myWavCvtBufferSize := 0\<rparr>
         else s1)"

definition wavSize :: "('f, 'r) SoundSDL2 \<Rightarrow> uInt32" where
  "wavSize s = (if myWavBuffer s \<noteq> None then myWavLen s else 0)"

text \<open>
  The number of source bytes one run of \<open>wavCallback\<close> takes from the cursor when
  \<open>myWavLen\<close> is not zero: the value of \<open>len\<close> where the source reaches
  \<open>myWavPos += len\<close>. With \<open>RESAMPLE_WAV\<close> and a speed other than 1.0 the requested
  length is first rescaled.
\<close>
definition wavResampling :: "('f, 'r) Env \<Rightarrow> ('f, 'r) SoundSDL2 \<Rightarrow> bool" where
  "wavResampling E s = (RESAMPLE_WAV E \<and> myWavSpeed s \<noteq> float_of_int E 1)"

definition wavScaledLen :: "('f, 'r) Env \<Rightarrow> cint \<Rightarrow> ('f, 'r) SoundSDL2 \<Rightarrow> cint" where
  "wavScaledLen E len s =
     (if wavResampling E s
      then fround E (fdiv E (float_of_int E (sint len)) (myWavSpeed s))
      else len)"

definition wavConsumed :: "('f, 'r) Env \<Rightarrow> cint \<Rightarrow> ('f, 'r) SoundSDL2 \<Rightarrow> cint" where
  "wavConsumed E len s =
     (let len1 = wavScaledLen E len s
      in if len1 > myWavLen s then myWavLen s else len1)"

text \<open>
  The conversion buffer of the resampling branch: \<open>cvt.len = len * channels\<close>, and the
  buffer is replaced when it is missing or smaller than \<open>cvt.len * cvt.len_mult\<close>.
\<close>
definition wavCvtBuffer ::
  "('f, 'r) Env \<Rightarrow> cint \<Rightarrow> ('f, 'r) SoundSDL2 \<Rightarrow> ('f, 'r) SoundSDL2" where
  "wavCvtBuffer E origLen s =
     (let len1 = wavScaledLen E origLen s;
          newFreq = fround E (fdiv E (fmul E (float_of_int E (sint (freq (myWavSpec s))))
                                             (float_of_int E (sint origLen)))
                                     (float_of_int E (sint len1)));
          len2 = wavConsumed E origLen s;
          len_mult = SDL_BuildAudioCVT E (format (myWavSpec s)) (channels (myWavSpec s))
                       (freq (myWavSpec s)) newFreq;
          cvt_len = len2 * ucast (channels (myWavSpec s));
          needed = cvt_len * len_mult
      in if myWavCvtBuffer s = None \<or> myWavCvtBufferSize s < needed
         then s\<lparr>myWavCvtBufferSize := needed, myWavCvtBuffer := SDL_malloc E needed\<rparr>
         else s)"

text \<open>
  \<open>wavCallback\<close>: the stream is first filled with silence; while \<open>myWavLen\<close> is not zero,
  \<open>len\<close> bytes at the cursor (converted first in the resampling branch) are mixed into
  it by \<open>SDL_MixAudioFormat\<close> at volume \<open>SDL_MIX_MAXVOLUME * myWavVolumeFactor\<close>, then
  the cursor advances and the remaining length shrinks.
\<close>
definition wavCallback ::
  "('f, 'r) Env \<Rightarrow> cint \<Rightarrow> ('f, 'r) SoundSDL2 \<Rightarrow> ('f, 'r) SoundSDL2" where
  "wavCallback E len s =
     (if myWavLen s \<noteq> 0 then
        (let n = wavConsumed E len s;
             s1 = (if wavResampling E s then wavCvtBuffer E len s else s)
         in s1\<lparr>myWavPos := ptr_add (myWavPos s1) (sint n),
                 myWavLen := myWavLen s1 - n\<rparr>)
      else s)"

subsection \<open>Volume, mute and enable\<close>

definition setVolume ::
  "('f, 'r) Env \<Rightarrow> uInt32 \<Rightarrow> ('f, 'r) SoundSDL2 \<Rightarrow> ('f, 'r) SoundSDL2" where
  "setVolume E percent s =
     (if myIsInitializedFlag s \<and> percent \<le> 100 then
        (let s1 = s\<lparr>myAudioSettings := (myAudioSettings s)\<lparr>volume := percent\<rparr>,
                     myVolume := percent\<rparr>;
             s2 = s1\<lparr>myVolumeFactor :=
                        fdiv E (float_of_int E (uint percent)) (float_of_int E 100)\<rparr>
         in s2\<lparr>myWavVolumeFactor :=
                  (if enabled (myAudioSettings s2) then myVolumeFactor s2
                   else float_of_int E 0)\<rparr>)
      else s)"

definition mute :: "bool \<Rightarrow> ('f, 'r) SoundSDL2 \<Rightarrow> bool \<times> ('f, 'r) SoundSDL2" where
  "mute state s =
     (let oldstate = (sdlStatus s (myDevice s) = SDL_AUDIO_PAUSED);
          s1 = (if myIsInitializedFlag s then SDL_PauseAudioDevice (myDevice s) state s else s);
          s2 = (if myWavDevice s1 \<noteq> 0 then SDL_PauseAudioDevice (myWavDevice s1) state s1
                else s1)
      in (oldstate, s2))"

definition setEnabled ::
  "('f, 'r) Env \<Rightarrow> bool \<Rightarrow> ('f, 'r) SoundSDL2 \<Rightarrow> ('f, 'r) SoundSDL2" where
  "setEnabled E enable s =
     (let s1 = s\<lparr>myAudioSettings := (myAudioSettings s)\<lparr>enabled := enable\<rparr>\<rparr>;
          s2 = s1\<lparr>myAudioQueue := map_option (ignoreOverflows (\<not> enable)) (myAudioQueue s1)\<rparr>;
          s3 = s2\<lparr>myMuteState := \<not> enable\<rparr>
      in s3\<lparr>myWavVolumeFactor :=
               (if myMuteState s3 then float_of_int E 0 else myVolumeFactor s3)\<rparr>)"

definition toggleMute ::
  "('f, 'r) Env \<Rightarrow> ('f, 'r) SoundSDL2 \<Rightarrow> bool \<times> ('f, 'r) SoundSDL2" where
  "toggleMute E s =
     (let enabled' = \<not> enabled (myAudioSettings s);
          s1 = setEnabled E enabled' s;
          s2 = initializeAudio E s1;
          s3 = s2\<lparr>myMuteState := \<not> enabled'\<rparr>;
          s4 = snd (mute (myMuteState s3) s3);
          s5 = (if myWavDevice s4 \<noteq> 0 then SDL_PauseAudioDevice (myWavDevice s4) False s4
                else s4)
      in (enabled', s5))"

subsection \<open>The primary stream\<close>

text \<open>The lambda \<open>nextFragmentCallback\<close> of \<open>initResampler\<close>, which captures \<open>this\<close>.\<close>
definition nextFragmentCallback ::
  "('f, 'r) SoundSDL2 \<Rightarrow> error + (fragment option \<times> ('f, 'r) SoundSDL2)" where
  "nextFragmentCallback s =
     (case myAudioQueue s of
        None \<Rightarrow> Inl null_dereference
      | Some q \<Rightarrow>
          (case (if myUnderrun s then
                   (case myEmulationTiming s of
                      None \<Rightarrow> Inl null_dereference
                    | Some t \<Rightarrow>
                        Inr (if queue_size q \<ge> prebufferFragmentCount t
                             then dequeue q (myCurrentFragment s)
                             else (None, q)))
                 else Inr (dequeue q (myCurrentFragment s))) of
             Inl e \<Rightarrow> Inl e
           | Inr (nextFragment, q') \<Rightarrow>
               (let s1 = s\<lparr>myAudioQueue := Some q', myUnderrun := (nextFragment = None)\<rparr>
                in Inr (nextFragment,
                        if nextFragment \<noteq> None then s1\<lparr>myCurrentFragment := nextFragment\<rparr>
                        else s1))))"

text \<open>One \<open>fillFragment\<close> call run against the engine: every pull is the lambda above.\<close>
primrec run_fill ::
  "('f, 'r) fill \<Rightarrow> ('f, 'r) SoundSDL2 \<Rightarrow> error + ('f list \<times> 'r \<times> ('f, 'r) SoundSDL2)" where
  "run_fill (Filled stream r) s = Inr (stream, r, s)"
| "run_fill (NextFragment k) s =
     (case nextFragmentCallback s of
        Inl e \<Rightarrow> Inl e
      | Inr (f, s') \<Rightarrow> run_fill (k f) s')"

text \<open>
  \<open>for(uInt32 i = 0; i < length; ++i) stream[i] *= myVolumeFactor;\<close> on the cells the
  resampler left; an index past the end of the list is outside the modelled buffer.
\<close>
definition scaleStream :: "('f, 'r) Env \<Rightarrow> 'f \<Rightarrow> uInt32 \<Rightarrow> 'f list \<Rightarrow> 'f list" where
  "scaleStream E factor length' stream =
     fold (\<lambda>i st. if i < length st then st[i := fmul E (st ! i) factor] else st)
       [0..<unat length'] stream"

definition processFragment ::
  "('f, 'r) Env \<Rightarrow> uInt32 \<Rightarrow> ('f, 'r) SoundSDL2 \<Rightarrow> error + ('f list \<times> ('f, 'r) SoundSDL2)" where
  "processFragment E length' s =
     (case myResampler s of
        None \<Rightarrow> Inl null_dereference
      | Some r \<Rightarrow>
          (case run_fill (fillFragment E r length') s of
             Inl e \<Rightarrow> Inl e
           | Inr (stream, r', s1) \<Rightarrow>
               Inr (scaleStream E (myVolumeFactor s1) length' stream,
                    s1\<lparr>myResampler := Some r'\<rparr>)))"

text \<open>
  The device buffer after the callback: \<open>len\<close> raw bytes where the source writes it with
  \<open>SDL_memset\<close>, float cells where it writes it through \<open>reinterpret_cast<float*>\<close>.
\<close>
datatype 'f stream = RawBytes "uInt8 list" | FloatSamples "'f list"

definition callback ::
  "('f, 'r) Env \<Rightarrow> cint \<Rightarrow> ('f, 'r) SoundSDL2 \<Rightarrow> error + ('f stream \<times> ('f, 'r) SoundSDL2)" where
  "callback E len s =
     (if myAudioQueue s \<noteq> None then
        (case processFragment E (signed_drop_bit 2 len) s of
           Inl e \<Rightarrow> Inl e
         | Inr (samples', s1) \<Rightarrow> Inr (FloatSamples samples', s1))
      else Inr (RawBytes (replicate (unat (scast len :: 64 word)) 0), s))"

text \<open>
  The float cells the device callback emits when the volume has just been set to
  \<open>percent\<close>: \<open>setVolume(percent)\<close> followed by one \<open>callback\<close> of \<open>len\<close> bytes (no cells
  where the callback writes raw bytes or does not return).
\<close>
definition emittedSamples ::
  "('f, 'r) Env \<Rightarrow> cint \<Rightarrow> uInt32 \<Rightarrow> ('f, 'r) SoundSDL2 \<Rightarrow> 'f list" where
  "emittedSamples E len percent s =
     (case callback E len (setVolume E percent s) of
        Inr (FloatSamples out, s') \<Rightarrow> out
      | _ \<Rightarrow> [])"

subsection \<open>Opening the device\<close>

definition openDevice ::
  "('f, 'r) Env \<Rightarrow> ('f, 'r) SoundSDL2 \<Rightarrow> error + (bool \<times> ('f, 'r) SoundSDL2)" where
  "openDevice E s =
     (let desired =
            \<lparr>freq = sampleRate (myAudioSettings s), format = AUDIO_F32SYS, channels = 2,
             silence = 0, samples = ucast (fragmentSize (myAudioSettings s)),
             callback_fn = device_callback\<rparr>;
          s1 = (if myIsInitializedFlag s then SDL_CloseAudioDevice (myDevice s) s else s);
          s2 = s1\<lparr>myDeviceId :=
                     BSPF_clamp E (device (myAudioSettings s1)) 0
                       (of_nat (length (myDevices s1)) - 1)\<rparr>
      in case deviceName s2 of
           Inl e \<Rightarrow> Inl e
         | Inr dname \<Rightarrow>
             (let opened = SDL_OpenAudioDevice E dname desired (Some (myHardwareSpec s2))
                             SDL_AUDIO_ALLOW_FREQUENCY_CHANGE;
                  s3 = sdl_opened (fst opened)
                         (s2\<lparr>myDevice := fst opened,
                             myHardwareSpec :=
                               (case snd opened of Some h \<Rightarrow> h | None \<Rightarrow> myHardwareSpec s2)\<rparr>)
              in if myDevice s3 = 0 then Inr (False, s3\<lparr>myIsInitializedFlag := False\<rparr>)
                 else Inr (True, s3\<lparr>myIsInitializedFlag := True\<rparr>)))"

definition initResampler ::
  "('f, 'r) Env \<Rightarrow> ('f, 'r) SoundSDL2 \<Rightarrow> error + ('f, 'r) SoundSDL2" where
  "initResampler E s =
     (case (myEmulationTiming s, myAudioQueue s) of
        (Some t, Some q) \<Rightarrow>
          (let formatFrom =
                 \<lparr>formatSampleRate = audioSampleRate t,
                  formatFragmentSize = queueFragmentSize q,
                  formatStereo = queueIsStereo q\<rparr>;
               formatTo =
                 \<lparr>formatSampleRate = freq (myHardwareSpec s),
                  formatFragmentSize = ucast (samples (myHardwareSpec s)),
                  formatStereo = (channels (myHardwareSpec s) > 1)\<rparr>
           in case resamplingQuality (myAudioSettings s) of
                nearestNeightbour \<Rightarrow>
                  Inr (s\<lparr>myResampler := Some (SimpleResampler E formatFrom formatTo)\<rparr>)
              | lanczos_2 \<Rightarrow>
                  Inr (s\<lparr>myResampler := Some (LanczosResampler E formatFrom formatTo 2)\<rparr>)
              | lanczos_3 \<Rightarrow>
                  Inr (s\<lparr>myResampler := Some (LanczosResampler E formatFrom formatTo 3)\<rparr>)
              | other_quality \<Rightarrow> Inl (runtime_error ''invalid resampling quality''))
      | _ \<Rightarrow> Inl null_dereference)"

text \<open>
  \<open>about\<close>: \<open>myDevices.at(myDeviceId)\<close> throws when the id is past the list, and
  \<open>myAudioQueue->isStereo()\<close> needs the queue.
\<close>
definition about :: "('f, 'r) Env \<Rightarrow> ('f, 'r) SoundSDL2 \<Rightarrow> error + string" where
  "about E s =
     (if unat (myDeviceId s) < length (myDevices s) then
        (case myAudioQueue s of
           None \<Rightarrow> Inl null_dereference
         | Some q \<Rightarrow> Inr (aboutText E s))
      else Inl out_of_range)"

text \<open>The test of \<open>open\<close> under "Do we need to re-open the sound device?".\<close>
definition needsReopen :: "('f, 'r) SoundSDL2 \<Rightarrow> bool" where
  "needsReopen s =
     (sampleRate (myAudioSettings s) \<noteq> freq (myHardwareSpec s) \<or>
      fragmentSize (myAudioSettings s) \<noteq> ucast (samples (myHardwareSpec s)) \<or>
      device (myAudioSettings s) \<noteq> myDeviceId s)"

text \<open>
  \<open>open\<close>. The queue is shared with the caller, so the queue as \<open>ignoreOverflows\<close> left
  it is returned beside the state.
\<close>
definition open' ::
  "('f, 'r) Env \<Rightarrow> AudioQueue option \<Rightarrow> EmulationTiming option \<Rightarrow> ('f, 'r) SoundSDL2
     \<Rightarrow> error + (AudioQueue option \<times> ('f, 'r) SoundSDL2)" where
  "open' E audioQueue emulationTiming s =
     (case (if needsReopen s then openDevice E s else Inr (True, s)) of
        Inl e \<Rightarrow> Inl e
      | Inr (_, s1) \<Rightarrow>
          (case (if RESAMPLE_WAV E then
                   (case emulationTiming of
                      None \<Rightarrow> Inl null_dereference
                    | Some t \<Rightarrow>
                        Inr (s1\<lparr>myEmulationTiming := emulationTiming,
                                 myWavSpeed :=
                                   fdiv E (float_of_int E 31440)
                                     (float_of_int E (uint (audioSampleRate t)))\<rparr>))
                 else Inr (s1\<lparr>myEmulationTiming := emulationTiming\<rparr>)) of
             Inl e \<Rightarrow> Inl e
           | Inr s2 \<Rightarrow>
               (let s3 = snd (mute True s2) in
                case audioQueue of
                  None \<Rightarrow> Inl null_dereference
                | Some q \<Rightarrow>
                    (let q1 = ignoreOverflows (\<not> enabled (myAudioSettings s3)) q in
                     if \<not> enabled (myAudioSettings s3) then Inr (Some q1, s3)
                     else
                       (let s4 = s3\<lparr>myAudioQueue := Some q1, myUnderrun := True,
                                    myCurrentFragment := None\<rparr>;
                            s5 = setVolume E (volume (myAudioSettings s4)) s4
                        in case initResampler E s5 of
                             Inl e \<Rightarrow> Inl e
                           | Inr s6 \<Rightarrow>
                               (case about E s6 of
                                  Inl e \<Rightarrow> Inl e
                                | Inr text' \<Rightarrow>
                                    (let s7 = s6\<lparr>myAboutString := text'\<rparr>
                                     in Inr (Some q1, snd (mute (myMuteState s7) s7)))))))))"

subsection \<open>A concrete configuration\<close>

text \<open>
  An environment and a state on which the theorems below are instantiated. Floating-point
  values are rationals here and a resampler's state is a counter of its fills; a fill
  pulls one fragment and pads it with zeros to the requested length. The only file that
  loads is \<open>a.wav\<close>, 200 bytes at address 1000; the state is the one reached when that
  file has been played to its end on overlay device 3 while the primary device 2 plays.
\<close>

definition exampleWavSpec :: SDL_AudioSpec where
  "exampleWavSpec =
     \<lparr>freq = 44100, format = 8, channels = 1, silence = 128, samples = 4096,
      callback_fn = no_callback\<rparr>"

definition exampleEnv :: "(rat, nat) Env" where
  "exampleEnv =
     \<lparr>RESAMPLE_WAV = True,
      float_of_int = of_int,
      fdiv = (\<lambda>x y. x / y),
      fmul = (\<lambda>x y. x * y),
      fround = (\<lambda>x. word_of_int (round x)),
      SDL_OpenAudioDevice =
        (\<lambda>name desired obtained allowed.
           (if obtained = None then 3 else 2, map_option (\<lambda>_. desired) obtained)),
      SDL_LoadWAV =
        (\<lambda>name. if name = ''a.wav'' then Some (exampleWavSpec, 1000, 200) else None),
      SDL_BuildAudioCVT = (\<lambda>fmt ch src_rate dst_rate. 1),
      SDL_malloc = (\<lambda>n. Some 5000),
      SimpleResampler = (\<lambda>from to. 0),
      LanczosResampler = (\<lambda>from to a. 0),
      fillFragment =
        (\<lambda>r n. NextFragment
           (\<lambda>f. Filled (take (unat n)
                          (map (\<lambda>x. of_int (sint x)) (case f of None \<Rightarrow> [] | Some xs \<Rightarrow> xs)
                             @ replicate (unat n) 0))
                        (Suc r))),
      initializeAudio = (\<lambda>s. s),
      BSPF_clamp = (\<lambda>v lo hi. if v < lo then lo else if hi < v then hi else v),
      aboutText = (\<lambda>s. ''Sound enabled'')\<rparr>"

definition exampleState :: "(rat, nat) SoundSDL2" where
  "exampleState =
     \<lparr>myAudioSettings =
        \<lparr>sampleRate = 48000, fragmentSize = 512, device = 0, enabled = True,
         volume = 80, resamplingQuality = lanczos_2\<rparr>,
      myIsInitializedFlag = True,
      myVolume = 80,
      myVolumeFactor = 4 / 5,
      myDevices = [(''Default'', 0), (''Speakers'', 1)],
      myDeviceId = 0,
      myDevice = 2,
      myHardwareSpec =
        \<lparr>freq = 48000, format = AUDIO_F32SYS, channels = 2, silence = 0, samples = 512,
         callback_fn = device_callback\<rparr>,
      myMuteState = False,
      myAudioQueue =
        Some \<lparr>fragments = [[10, 20], [30, 40]], queueFragmentSize = 2,
              queueIsStereo = False, overflowsIgnored = False\<rparr>,
      myEmulationTiming = Some \<lparr>audioSampleRate = 31440, prebufferFragmentCount = 2\<rparr>,
      myCurrentFragment = None,
      myUnderrun = True,
      myResampler = Some 0,
      myAboutString = ''Sound enabled'',
      myWavFilename = ''a.wav'',
      myWavLength = 200,
      myWavDevice = 3,
      myWavBuffer = Some 1000,
      myWavVolumeFactor = 4 / 5,
      myWavSpec = exampleWavSpec\<lparr>callback_fn := wav_callback\<rparr>,
      myWavPos = Some 1200,
      myWavLen = 0,
      myWavSpeed = 1,
      myWavCvtBuffer = None,
      myWavCvtBufferSize = 0,
      sdlStatus = (\<lambda>d. if d = 2 \<or> d = 3 then SDL_AUDIO_PLAYING else SDL_AUDIO_STOPPED)\<rparr>"

section \<open>Properties\<close>

subsection \<open>Machine arithmetic\<close>

lemma uint_nonneg_sint:
  assumes "0 \<le> sint (w :: 'a::len word)"
  shows "uint w = sint w"
proof -
  have "sint w < 2 ^ (LENGTH('a) - 1)" by (rule sint_lt)
  also have "(2::int) ^ (LENGTH('a) - 1) \<le> 2 ^ LENGTH('a)"
    by (rule power_increasing) simp_all
  finally have bound: "sint w < 2 ^ LENGTH('a)" .
  have "uint w = uint (word_of_int (sint w) :: 'a word)" by simp
  also have "\<dots> = take_bit LENGTH('a) (sint w)" by (simp only: uint_word_of_int_eq)
  also have "\<dots> = sint w" using assms bound by (simp add: take_bit_int_eq_self)
  finally show ?thesis .
qed

lemma unat_nonneg_sint:
  "0 \<le> sint (w :: 'a::len word) \<Longrightarrow> unat w = nat (sint w)"
  by (simp only: unat_eq_nat_uint uint_nonneg_sint)

lemma unat_len_shift:
  assumes "0 \<le> sint (len :: 32 word)"
  shows "unat (signed_drop_bit 2 len) = nat (sint len) div 4"
proof -
  have "0 \<le> sint (signed_drop_bit 2 len)"
    using assms by (simp add: sint_signed_drop_bit_eq drop_bit_eq_div)
  then have "unat (signed_drop_bit 2 len) = nat (sint (signed_drop_bit 2 len))"
    by (rule unat_nonneg_sint)
  also have "\<dots> = nat (sint len) div 4"
    using assms by (simp add: sint_signed_drop_bit_eq drop_bit_eq_div nat_div_distrib)
  finally show ?thesis .
qed

lemma unat_len_size_t:
  assumes "0 \<le> sint (len :: 32 word)"
  shows "unat (scast len :: 64 word) = nat (sint len)"
proof -
  have "sint (scast len :: 64 word) = sint len"
    by (rule sint_up_scast) (simp add: is_up)
  with assms unat_nonneg_sint [of "scast len :: 64 word"] show ?thesis by simp
qed

subsection \<open>The primary stream\<close>

lemma scaleStream_eq:
  "scaleStream E factor n stream =
     map (\<lambda>x. fmul E x factor) (take (unat n) stream) @ drop (unat n) stream"
proof -
  have "fold (\<lambda>i st. if i < length st then st[i := fmul E (st ! i) factor] else st) [0..<k] stream
        = map (\<lambda>x. fmul E x factor) (take k stream) @ drop k stream" for k
  proof (induction k)
    case 0
    then show ?case by simp
  next
    case (Suc k)
    show ?case
    proof (cases "k < length stream")
      case True
      then show ?thesis
        using Suc
        by (simp add: take_Suc_conv_app_nth nth_append list_update_append
                      Cons_nth_drop_Suc [symmetric])
    next
      case False
      then show ?thesis using Suc by simp
    qed
  qed
  then show ?thesis by (simp add: scaleStream_def)
qed

lemma nextFragmentCallback_frame:
  "nextFragmentCallback s = Inr (f, s') \<Longrightarrow>
     myVolumeFactor s' = myVolumeFactor s \<and> myResampler s' = myResampler s"
  by (auto simp: nextFragmentCallback_def Let_def split: option.splits if_splits sum.splits prod.splits)

lemma run_fill_frame:
  "run_fill t s = Inr (stream, r, s') \<Longrightarrow>
     myVolumeFactor s' = myVolumeFactor s \<and> myResampler s' = myResampler s"
proof (induction t arbitrary: s)
  case (Filled xs r0)
  then show ?case by simp
next
  case (NextFragment k)
  from NextFragment.prems obtain f s1
    where pull: "nextFragmentCallback s = Inr (f, s1)"
      and rest: "run_fill (k f) s1 = Inr (stream, r, s')"
    by (auto split: sum.splits)
  from NextFragment.IH [OF rangeI rest] nextFragmentCallback_frame [OF pull]
  show ?case by simp
qed

lemma processFragment_scaled:
  assumes "myResampler s = Some r"
      and "run_fill (fillFragment E r n) s = Inr (filled, r', s1)"
  shows "processFragment E n s =
           Inr (map (\<lambda>x. fmul E x (myVolumeFactor s)) (take (unat n) filled)
                  @ drop (unat n) filled,
                s1\<lparr>myResampler := Some r'\<rparr>)"
  using assms run_fill_frame [OF assms(2)]
  by (simp add: processFragment_def scaleStream_eq)

text \<open>
  C5. A pull issued by the resampler, with a queue and a timing descriptor bound, returns.
  While the underrun flag is set and the queue holds fewer fragments than the prebuffer
  count, it yields none and leaves the queue as it was; in every other case (underrun
  with enough fragments queued, or no underrun) its result is that of a dequeue on the
  queue. Afterwards the underrun flag is set exactly when the pull yielded no fragment.
\<close>
theorem nextFragmentCallback_policy:
  assumes "myAudioQueue s = Some q" and "myEmulationTiming s = Some t"
  shows "\<exists>f s'. nextFragmentCallback s = Inr (f, s') \<and>
           myUnderrun s' = (f = None) \<and>
           (if myUnderrun s \<and> queue_size q < prebufferFragmentCount t
            then f = None \<and> myAudioQueue s' = Some q
            else \<exists>q'. myAudioQueue s' = Some q' \<and> (f, q') = dequeue q (myCurrentFragment s))"
  using assms
  by (cases "dequeue q (myCurrentFragment s)")
     (auto simp: nextFragmentCallback_def Let_def not_less)

theorem nextFragmentCallback_policy_witness:
  "(\<exists>f s'. nextFragmentCallback exampleState = Inr (f, s') \<and> myUnderrun s' = (f = None) \<and>
      f = Some [10, 20]) \<and>
   (\<exists>f s'. nextFragmentCallback
              (exampleState\<lparr>myEmulationTiming :=
                 Some \<lparr>audioSampleRate = 31440, prebufferFragmentCount = 3\<rparr>\<rparr>) = Inr (f, s') \<and>
      myUnderrun s' = (f = None) \<and> f = None \<and> myAudioQueue s' = myAudioQueue exampleState)"
proof -
  let ?q = "\<lparr>fragments = [[10, 20], [30, 40]], queueFragmentSize = 2,
              queueIsStereo = False, overflowsIgnored = False\<rparr>"
  let ?t2 = "\<lparr>audioSampleRate = 31440, prebufferFragmentCount = 2\<rparr>"
  let ?t3 = "\<lparr>audioSampleRate = 31440, prebufferFragmentCount = 3\<rparr>"
  have q: "myAudioQueue exampleState = Some ?q"
    and t: "myEmulationTiming exampleState = Some ?t2"
    by (simp_all add: exampleState_def)
  have q': "myAudioQueue (exampleState\<lparr>myEmulationTiming := Some ?t3\<rparr>) = Some ?q"
    and t': "myEmulationTiming (exampleState\<lparr>myEmulationTiming := Some ?t3\<rparr>) = Some ?t3"
    by (simp_all add: exampleState_def)
  have u: "myUnderrun exampleState" "myCurrentFragment exampleState = None"
    by (simp_all add: exampleState_def)
  show ?thesis
    using nextFragmentCallback_policy [OF q t] nextFragmentCallback_policy [OF q' t'] u q
    by (auto simp: queue_size_def dequeue_def)
qed

text \<open>
  C6. The device callback with requested byte length \<open>len\<close>: with no queue bound the
  output is \<open>len\<close> zero bytes and the state is unchanged; with a queue bound the
  resampler's fill is asked for \<open>len >> 2\<close> samples (\<open>len / 4\<close> for the non-negative
  lengths SDL passes), and each of the first \<open>len >> 2\<close> cells it left is multiplied once
  by the volume factor the engine had on entry, the cells beyond staying as they are.
  The fill itself never sees the factor: it only talks to the engine through the pull.
\<close>
theorem callback_zero_fill_or_scaled:
  "(myAudioQueue s = None \<longrightarrow>
      callback E len s = Inr (RawBytes (replicate (unat (scast len :: 64 word)) 0), s)) \<and>
   (myAudioQueue s \<noteq> None \<longrightarrow> myResampler s = Some r \<longrightarrow>
    run_fill (fillFragment E r (signed_drop_bit 2 len)) s = Inr (filled, r', s1) \<longrightarrow>
      callback E len s =
        Inr (FloatSamples
               (map (\<lambda>x. fmul E x (myVolumeFactor s))
                    (take (unat (signed_drop_bit 2 len)) filled)
                  @ drop (unat (signed_drop_bit 2 len)) filled),
             s1\<lparr>myResampler := Some r'\<rparr>)) \<and>
   (0 \<le> sint len \<longrightarrow>
      unat (signed_drop_bit 2 len) = nat (sint len) div 4 \<and>
      unat (scast len :: 64 word) = nat (sint len))"
proof (intro conjI impI)
  assume "myAudioQueue s = None"
  then show "callback E len s = Inr (RawBytes (replicate (unat (scast len :: 64 word)) 0), s)"
    by (simp add: callback_def)
next
  assume "myAudioQueue s \<noteq> None" and "myResampler s = Some r"
     and "run_fill (fillFragment E r (signed_drop_bit 2 len)) s = Inr (filled, r', s1)"
  then show "callback E len s =
        Inr (FloatSamples
               (map (\<lambda>x. fmul E x (myVolumeFactor s))
                    (take (unat (signed_drop_bit 2 len)) filled)
                  @ drop (unat (signed_drop_bit 2 len)) filled),
             s1\<lparr>myResampler := Some r'\<rparr>)"
    by (simp add: callback_def processFragment_scaled)
next
  assume "0 \<le> sint len"
  then show "unat (signed_drop_bit 2 len) = nat (sint len) div 4"
    by (rule unat_len_shift)
next
  assume "0 \<le> sint len"
  then show "unat (scast len :: 64 word) = nat (sint len)"
    by (rule unat_len_size_t)
qed

lemma replicate_2: "replicate 2 x = [x, x]"
  by (simp add: numeral_2_eq_2)

lemma example_fill:
  "run_fill (fillFragment exampleEnv 0 (signed_drop_bit 2 16)) exampleState =
     Inr ([10, 20, 0, 0], Suc 0,
          exampleState\<lparr>myAudioQueue :=
                          Some \<lparr>fragments = [[30, 40]], queueFragmentSize = 2,
                                queueIsStereo = False, overflowsIgnored = False\<rparr>,
                        myUnderrun := False,
                        myCurrentFragment := Some [10, 20]\<rparr>)"
  by (simp add: exampleEnv_def exampleState_def nextFragmentCallback_def queue_size_def
                dequeue_def replicate_2)

theorem callback_zero_fill_or_scaled_witness:
  "callback exampleEnv 16 (exampleState\<lparr>myAudioQueue := None\<rparr>) =
     Inr (RawBytes (replicate 16 0), exampleState\<lparr>myAudioQueue := None\<rparr>) \<and>
   callback exampleEnv 16 exampleState =
     Inr (FloatSamples [8, 16, 0, 0],
          exampleState\<lparr>myAudioQueue :=
                          Some \<lparr>fragments = [[30, 40]], queueFragmentSize = 2,
                                queueIsStereo = False, overflowsIgnored = False\<rparr>,
                        myUnderrun := False,
                        myCurrentFragment := Some [10, 20],
                        myResampler := Some 1\<rparr>)"
proof -
  have bound: "myAudioQueue exampleState \<noteq> None" "myResampler exampleState = Some 0"
    "myVolumeFactor exampleState = 4 / 5"
    by (simp_all add: exampleState_def)
  have unbound: "myAudioQueue (exampleState\<lparr>myAudioQueue := None\<rparr>) = None"
    by simp
  have mul: "fmul exampleEnv = (\<lambda>x y. x * y)"
    by (simp add: exampleEnv_def)
  show ?thesis
    using callback_zero_fill_or_scaled
            [of "exampleState\<lparr>myAudioQueue := None\<rparr>" exampleEnv 16]
          callback_zero_fill_or_scaled
            [where s = exampleState and E = exampleEnv and len = 16 and r = 0
               and filled = "[10, 20, 0, 0]" and r' = "Suc 0"]
          example_fill bound unbound mul
    by simp
qed

subsection \<open>Volume and mute\<close>

text \<open>
  C4, as amended. A call \<open>setVolume(percent)\<close> changes nothing at all when \<open>percent\<close> is
  above 100 or the device is not initialized. When \<open>percent\<close> is at most 100 and the
  device is initialized, the volume factor becomes the floating-point quotient of
  \<open>percent\<close> and 100, the overlay factor becomes the same quotient when sound is enabled
  and zero otherwise, and \<open>percent\<close> itself is stored in the engine and in the settings.
\<close>
theorem setVolume_guarded:
  "(100 < percent \<or> \<not> myIsInitializedFlag s \<longrightarrow> setVolume E percent s = s) \<and>
   (percent \<le> 100 \<and> myIsInitializedFlag s \<longrightarrow>
      myVolumeFactor (setVolume E percent s) =
        fdiv E (float_of_int E (uint percent)) (float_of_int E 100) \<and>
      myWavVolumeFactor (setVolume E percent s) =
        (if enabled (myAudioSettings s)
         then fdiv E (float_of_int E (uint percent)) (float_of_int E 100)
         else float_of_int E 0) \<and>
      myVolume (setVolume E percent s) = percent \<and>
      volume (myAudioSettings (setVolume E percent s)) = percent)"
  by (auto simp: setVolume_def Let_def)

theorem setVolume_guarded_witness:
  "setVolume exampleEnv 101 exampleState = exampleState \<and>
   myVolumeFactor (setVolume exampleEnv 50 exampleState) = 1 / 2 \<and>
   myWavVolumeFactor (setVolume exampleEnv 50 exampleState) = 1 / 2 \<and>
   myVolume (setVolume exampleEnv 50 exampleState) = 50"
proof -
  have init: "myIsInitializedFlag exampleState" "enabled (myAudioSettings exampleState)"
    by (simp_all add: exampleState_def)
  have ops: "fdiv exampleEnv (float_of_int exampleEnv (uint (50 :: uInt32)))
               (float_of_int exampleEnv 100) = 1 / 2"
    by (simp add: exampleEnv_def)
  show ?thesis
    using setVolume_guarded [of 101 exampleState exampleEnv]
          setVolume_guarded [of 50 exampleState exampleEnv] init ops
    by simp
qed

text \<open>
  C4 as stated fails on an engine whose device could not be opened: 50 is within 0..100,
  yet the call stores nothing and the factor stays 4/5 instead of 50/100.
\<close>
theorem setVolume_uninitialized_counterexample:
  "(50 :: uInt32) \<le> 100 \<and>
   setVolume exampleEnv 50 (exampleState\<lparr>myIsInitializedFlag := False\<rparr>) =
     exampleState\<lparr>myIsInitializedFlag := False\<rparr> \<and>
   myVolumeFactor (setVolume exampleEnv 50 (exampleState\<lparr>myIsInitializedFlag := False\<rparr>)) = 4 / 5 \<and>
   fdiv exampleEnv (float_of_int exampleEnv (uint (50 :: uInt32))) (float_of_int exampleEnv 100)
     = 1 / 2"
  by (simp add: setVolume_def exampleState_def exampleEnv_def)

lemma SDL_PauseAudioDevice_stopped:
  "(sdlStatus (SDL_PauseAudioDevice dev b s) d = SDL_AUDIO_STOPPED) =
     (sdlStatus s d = SDL_AUDIO_STOPPED)"
  by (auto simp: SDL_PauseAudioDevice_def)

lemma SDL_PauseAudioDevice_same:
  "sdlStatus s dev \<noteq> SDL_AUDIO_STOPPED \<Longrightarrow>
     sdlStatus (SDL_PauseAudioDevice dev b s) dev =
       (if b then SDL_AUDIO_PAUSED else SDL_AUDIO_PLAYING)"
  by (simp add: SDL_PauseAudioDevice_def)

lemma SDL_PauseAudioDevice_twice:
  "sdlStatus s d = (if b then SDL_AUDIO_PAUSED else SDL_AUDIO_PLAYING) \<Longrightarrow>
     sdlStatus (SDL_PauseAudioDevice dev b s) d = sdlStatus s d"
  by (simp add: SDL_PauseAudioDevice_def)

lemma SDL_PauseAudioDevice_frame:
  "myDevice (SDL_PauseAudioDevice dev b s) = myDevice s"
  "myIsInitializedFlag (SDL_PauseAudioDevice dev b s) = myIsInitializedFlag s"
  "myWavDevice (SDL_PauseAudioDevice dev b s) = myWavDevice s"
  "myHardwareSpec (SDL_PauseAudioDevice dev b s) = myHardwareSpec s"
  "myDeviceId (SDL_PauseAudioDevice dev b s) = myDeviceId s"
  "myAudioSettings (SDL_PauseAudioDevice dev b s) = myAudioSettings s"
  "myMuteState (SDL_PauseAudioDevice dev b s) = myMuteState s"
  by (simp_all add: SDL_PauseAudioDevice_def)

lemma mute_paused:
  assumes "myIsInitializedFlag s" and "sdlStatus s (myDevice s) \<noteq> SDL_AUDIO_STOPPED"
  shows "sdlStatus (snd (mute state s)) (myDevice s) =
           (if state then SDL_AUDIO_PAUSED else SDL_AUDIO_PLAYING)"
proof -
  let ?s1 = "SDL_PauseAudioDevice (myDevice s) state s"
  have one: "sdlStatus ?s1 (myDevice s) = (if state then SDL_AUDIO_PAUSED else SDL_AUDIO_PLAYING)"
    using assms(2) by (rule SDL_PauseAudioDevice_same)
  have "sdlStatus (SDL_PauseAudioDevice (myWavDevice s) state ?s1) (myDevice s) =
          sdlStatus ?s1 (myDevice s)"
    using one by (rule SDL_PauseAudioDevice_twice)
  with one assms(1) show ?thesis
    by (cases state) (simp_all add: mute_def Let_def SDL_PauseAudioDevice_frame)
qed

lemma mute_frame:
  "myDevice (snd (mute state s)) = myDevice s"
  "myIsInitializedFlag (snd (mute state s)) = myIsInitializedFlag s"
  "myWavDevice (snd (mute state s)) = myWavDevice s"
  "myHardwareSpec (snd (mute state s)) = myHardwareSpec s"
  "myDeviceId (snd (mute state s)) = myDeviceId s"
  "myAudioSettings (snd (mute state s)) = myAudioSettings s"
  "myMuteState (snd (mute state s)) = myMuteState s"
  by (simp_all add: mute_def Let_def SDL_PauseAudioDevice_frame)

lemma mute_stopped:
  "(sdlStatus (snd (mute state s)) d = SDL_AUDIO_STOPPED) = (sdlStatus s d = SDL_AUDIO_STOPPED)"
  by (simp add: mute_def Let_def SDL_PauseAudioDevice_stopped)

lemma setEnabled_enabled:
  "enabled (myAudioSettings (setEnabled E b s)) = b"
  by (simp add: setEnabled_def Let_def)

lemma toggleMute_settings:
  "myAudioSettings (snd (toggleMute E s)) =
     myAudioSettings (initializeAudio E (setEnabled E (\<not> enabled (myAudioSettings s)) s))"
  by (simp add: toggleMute_def Let_def mute_frame SDL_PauseAudioDevice_frame)

text \<open>
  C8. \<open>mute(state)\<close> returns whether the primary device was paused before the call; on an
  initialized engine with its device open, passing that result to a second \<open>mute\<close> puts
  the device back into the status it had. \<open>toggleMute()\<close> returns the negation of the
  enabled setting it found, which is the new enabled state: afterwards the mute state
  is the negation of the result, and the enabled setting equals the result provided the
  console's audio re-initialisation leaves the settings alone.
\<close>
theorem mute_toggleMute_result:
  "fst (mute state s) = (sdlStatus s (myDevice s) = SDL_AUDIO_PAUSED) \<and>
   (myIsInitializedFlag s \<and> sdlStatus s (myDevice s) \<noteq> SDL_AUDIO_STOPPED \<longrightarrow>
      sdlStatus (snd (mute (fst (mute state s)) (snd (mute state s)))) (myDevice s) =
        sdlStatus s (myDevice s)) \<and>
   fst (toggleMute E s) = (\<not> enabled (myAudioSettings s)) \<and>
   myMuteState (snd (toggleMute E s)) = (\<not> fst (toggleMute E s)) \<and>
   (myAudioSettings (initializeAudio E (setEnabled E (\<not> enabled (myAudioSettings s)) s)) =
      myAudioSettings (setEnabled E (\<not> enabled (myAudioSettings s)) s) \<longrightarrow>
    enabled (myAudioSettings (snd (toggleMute E s))) = fst (toggleMute E s))"
proof (intro conjI impI)
  show "fst (mute state s) = (sdlStatus s (myDevice s) = SDL_AUDIO_PAUSED)"
    by (simp add: mute_def Let_def)
next
  assume a: "myIsInitializedFlag s \<and> sdlStatus s (myDevice s) \<noteq> SDL_AUDIO_STOPPED"
  let ?s1 = "snd (mute state s)"
  have first: "sdlStatus ?s1 (myDevice s) = (if state then SDL_AUDIO_PAUSED else SDL_AUDIO_PLAYING)"
    using a by (simp add: mute_paused)
  have old: "fst (mute state s) = (sdlStatus s (myDevice s) = SDL_AUDIO_PAUSED)"
    by (simp add: mute_def Let_def)
  have "myIsInitializedFlag ?s1" "sdlStatus ?s1 (myDevice ?s1) \<noteq> SDL_AUDIO_STOPPED"
    using a first by (simp_all add: mute_frame)
  then have "sdlStatus (snd (mute (fst (mute state s)) ?s1)) (myDevice ?s1) =
               (if fst (mute state s) then SDL_AUDIO_PAUSED else SDL_AUDIO_PLAYING)"
    by (rule mute_paused)
  then show "sdlStatus (snd (mute (fst (mute state s)) ?s1)) (myDevice s) =
               sdlStatus s (myDevice s)"
    using a old by (cases "sdlStatus s (myDevice s)") (simp_all add: mute_frame)
next
  show "fst (toggleMute E s) = (\<not> enabled (myAudioSettings s))"
    by (simp add: toggleMute_def Let_def)
next
  show "myMuteState (snd (toggleMute E s)) = (\<not> fst (toggleMute E s))"
    by (simp add: toggleMute_def Let_def mute_frame SDL_PauseAudioDevice_frame)
next
  assume "myAudioSettings (initializeAudio E (setEnabled E (\<not> enabled (myAudioSettings s)) s)) =
      myAudioSettings (setEnabled E (\<not> enabled (myAudioSettings s)) s)"
  then have "enabled (myAudioSettings (snd (toggleMute E s))) = (\<not> enabled (myAudioSettings s))"
    by (simp only: toggleMute_settings setEnabled_enabled)
  then show "enabled (myAudioSettings (snd (toggleMute E s))) = fst (toggleMute E s)"
    by (simp add: toggleMute_def Let_def)
qed

theorem mute_toggleMute_result_witness:
  "fst (mute True exampleState) = False \<and>
   sdlStatus (snd (mute True exampleState)) 2 = SDL_AUDIO_PAUSED \<and>
   sdlStatus (snd (mute False (snd (mute True exampleState)))) 2 = SDL_AUDIO_PLAYING \<and>
   fst (toggleMute exampleEnv exampleState) = False \<and>
   myMuteState (snd (toggleMute exampleEnv exampleState)) = True \<and>
   enabled (myAudioSettings (snd (toggleMute exampleEnv exampleState))) = False"
proof -
  have st: "myIsInitializedFlag exampleState" "myDevice exampleState = 2"
    "sdlStatus exampleState 2 = SDL_AUDIO_PLAYING" "enabled (myAudioSettings exampleState)"
    by (simp_all add: exampleState_def)
  have env: "initializeAudio exampleEnv = (\<lambda>s. s)"
    by (simp add: exampleEnv_def)
  have paused: "sdlStatus (snd (mute True exampleState)) 2 = SDL_AUDIO_PAUSED"
    using mute_paused [of exampleState True] st by simp
  have old: "fst (mute True exampleState) = False"
    using st by (simp add: mute_def Let_def)
  show ?thesis
    using mute_toggleMute_result [of True exampleState exampleEnv] st env paused old
    by simp
qed

subsection \<open>Opening the device\<close>

lemma setVolume_frame:
  "myDevice (setVolume E p s) = myDevice s"
  "myHardwareSpec (setVolume E p s) = myHardwareSpec s"
  "myDeviceId (setVolume E p s) = myDeviceId s"
  "myIsInitializedFlag (setVolume E p s) = myIsInitializedFlag s"
  "sdlStatus (setVolume E p s) = sdlStatus s"
  by (simp_all add: setVolume_def Let_def)

lemma initResampler_frame:
  assumes "initResampler E s = Inr s'"
  shows "myDevice s' = myDevice s \<and> myHardwareSpec s' = myHardwareSpec s \<and>
         myDeviceId s' = myDeviceId s \<and> myIsInitializedFlag s' = myIsInitializedFlag s \<and>
         sdlStatus s' = sdlStatus s"
  using assms
  by (auto simp: initResampler_def Let_def split: option.splits ResamplingQuality.splits)

lemma open'_without_reopen:
  assumes "\<not> needsReopen s"
      and "open' E audioQueue emulationTiming s = Inr (q', s')"
  shows "myDevice s' = myDevice s \<and> myHardwareSpec s' = myHardwareSpec s \<and>
         myDeviceId s' = myDeviceId s \<and> myIsInitializedFlag s' = myIsInitializedFlag s \<and>
         (\<forall>d. (sdlStatus s' d = SDL_AUDIO_STOPPED) = (sdlStatus s d = SDL_AUDIO_STOPPED))"
proof -
  define step :: "error + ('a, 'b) SoundSDL2" where
    "step = (if RESAMPLE_WAV E then
               (case emulationTiming of
                  None \<Rightarrow> Inl null_dereference
                | Some t \<Rightarrow>
                    Inr (s\<lparr>myEmulationTiming := emulationTiming,
                            myWavSpeed :=
                              fdiv E (float_of_int E 31440)
                                (float_of_int E (uint (audioSampleRate t)))\<rparr>))
             else Inr (s\<lparr>myEmulationTiming := emulationTiming\<rparr>))"
  define rest :: "('a, 'b) SoundSDL2 \<Rightarrow> error + (AudioQueue option \<times> ('a, 'b) SoundSDL2)" where
    "rest = (\<lambda>s2.
       let s3 = snd (mute True s2) in
       case audioQueue of
         None \<Rightarrow> Inl null_dereference
       | Some q \<Rightarrow>
           (let q1 = ignoreOverflows (\<not> enabled (myAudioSettings s3)) q in
            if \<not> enabled (myAudioSettings s3) then Inr (Some q1, s3)
            else
              (let s4 = s3\<lparr>myAudioQueue := Some q1, myUnderrun := True,
                           myCurrentFragment := None\<rparr>;
                   s5 = setVolume E (volume (myAudioSettings s4)) s4
               in case initResampler E s5 of
                    Inl e \<Rightarrow> Inl e
                  | Inr s6 \<Rightarrow>
                      (case about E s6 of
                         Inl e \<Rightarrow> Inl e
                       | Inr text' \<Rightarrow>
                           (let s7 = s6\<lparr>myAboutString := text'\<rparr>
                            in Inr (Some q1, snd (mute (myMuteState s7) s7)))))))"
  have unfolded: "open' E audioQueue emulationTiming s =
                    (case step of Inl e \<Rightarrow> Inl e | Inr s2 \<Rightarrow> rest s2)"
    unfolding open'_def step_def rest_def using assms(1) by simp
  with assms(2) obtain s2 where step: "step = Inr s2" and rest': "rest s2 = Inr (q', s')"
    by (cases step) simp_all
  from step have s2: "myDevice s2 = myDevice s" "myHardwareSpec s2 = myHardwareSpec s"
      "myDeviceId s2 = myDeviceId s" "myIsInitializedFlag s2 = myIsInitializedFlag s"
      "sdlStatus s2 = sdlStatus s"
    by (auto simp: step_def split: if_splits option.splits)
  note rest = rest' [unfolded rest_def]
  let ?s3 = "snd (mute True s2)"
  have s3: "myDevice ?s3 = myDevice s" "myHardwareSpec ?s3 = myHardwareSpec s"
      "myDeviceId ?s3 = myDeviceId s" "myIsInitializedFlag ?s3 = myIsInitializedFlag s"
      "\<And>d. (sdlStatus ?s3 d = SDL_AUDIO_STOPPED) = (sdlStatus s d = SDL_AUDIO_STOPPED)"
    using s2 by (simp_all add: mute_frame mute_stopped)
  from rest obtain q where q: "audioQueue = Some q"
    by (auto simp: Let_def split: option.splits)
  show ?thesis
  proof (cases "enabled (myAudioSettings ?s3)")
    case False
    with rest q have "s' = ?s3" by (simp add: Let_def)
    with s3 show ?thesis by simp
  next
    case True
    let ?s4 = "?s3\<lparr>myAudioQueue := Some (ignoreOverflows (\<not> enabled (myAudioSettings ?s3)) q),
                    myUnderrun := True, myCurrentFragment := None\<rparr>"
    let ?s5 = "setVolume E (volume (myAudioSettings ?s4)) ?s4"
    from rest q True obtain s6 text' where s6: "initResampler E ?s5 = Inr s6"
      and s': "s' = snd (mute (myMuteState s6) (s6\<lparr>myAboutString := text'\<rparr>))"
      by (auto simp: Let_def split: sum.splits)
    have s5: "myDevice ?s5 = myDevice s" "myHardwareSpec ?s5 = myHardwareSpec s"
      "myDeviceId ?s5 = myDeviceId s" "myIsInitializedFlag ?s5 = myIsInitializedFlag s"
      "\<And>d. (sdlStatus ?s5 d = SDL_AUDIO_STOPPED) = (sdlStatus s d = SDL_AUDIO_STOPPED)"
      using s3 by (simp_all add: setVolume_frame)
    from initResampler_frame [OF s6] s5
    have "myDevice s6 = myDevice s" "myHardwareSpec s6 = myHardwareSpec s"
      "myDeviceId s6 = myDeviceId s" "myIsInitializedFlag s6 = myIsInitializedFlag s"
      "\<And>d. (sdlStatus s6 d = SDL_AUDIO_STOPPED) = (sdlStatus s d = SDL_AUDIO_STOPPED)"
      by simp_all
    with s' show ?thesis by (simp add: mute_frame mute_stopped)
  qed
qed

text \<open>
  C7. When the requested sample rate equals the negotiated hardware rate, the requested
  fragment size equals the negotiated one and the configured device equals the bound
  device id, a call of \<open>open\<close> that returns leaves the device handle, the negotiated
  hardware spec, the bound device id and the initialized flag as they were, and no SDL
  device is closed or opened by it: a device is stopped afterwards exactly when it was
  stopped before. So the device is closed and re-opened only if one of the three differs.
\<close>
theorem open_keeps_device:
  assumes "sampleRate (myAudioSettings s) = freq (myHardwareSpec s)"
      and "fragmentSize (myAudioSettings s) = ucast (samples (myHardwareSpec s))"
      and "device (myAudioSettings s) = myDeviceId s"
      and "open' E audioQueue emulationTiming s = Inr (q', s')"
  shows "myDevice s' = myDevice s \<and> myHardwareSpec s' = myHardwareSpec s \<and>
         myDeviceId s' = myDeviceId s \<and> myIsInitializedFlag s' = myIsInitializedFlag s \<and>
         (\<forall>d. (sdlStatus s' d = SDL_AUDIO_STOPPED) = (sdlStatus s d = SDL_AUDIO_STOPPED))"
proof -
  from assms(1-3) have "\<not> needsReopen s" by (simp add: needsReopen_def)
  then show ?thesis using assms(4) by (rule open'_without_reopen)
qed

lemma example_open:
  "\<exists>q' s'. open' exampleEnv (myAudioQueue exampleState) (myEmulationTiming exampleState)
              exampleState = Inr (q', s')"
  by (simp add: open'_def needsReopen_def exampleState_def exampleEnv_def mute_def
                SDL_PauseAudioDevice_def setVolume_def initResampler_def Let_def
                ignoreOverflows_def AUDIO_F32SYS_def about_def)

theorem open_keeps_device_witness:
  "\<exists>q' s'. open' exampleEnv (myAudioQueue exampleState) (myEmulationTiming exampleState)
              exampleState = Inr (q', s') \<and>
           myDevice s' = 2 \<and> myDeviceId s' = 0 \<and> myIsInitializedFlag s' \<and>
           freq (myHardwareSpec s') = 48000 \<and> samples (myHardwareSpec s') = 512 \<and>
           sdlStatus s' 2 \<noteq> SDL_AUDIO_STOPPED"
proof -
  from example_open obtain q' s'
    where ret: "open' exampleEnv (myAudioQueue exampleState) (myEmulationTiming exampleState)
                  exampleState = Inr (q', s')"
    by blast
  have same: "sampleRate (myAudioSettings exampleState) = freq (myHardwareSpec exampleState)"
    "fragmentSize (myAudioSettings exampleState) = ucast (samples (myHardwareSpec exampleState))"
    "device (myAudioSettings exampleState) = myDeviceId exampleState"
    by (simp_all add: exampleState_def)
  have before: "myDevice exampleState = 2" "myDeviceId exampleState = 0"
    "myIsInitializedFlag exampleState" "freq (myHardwareSpec exampleState) = 48000"
    "samples (myHardwareSpec exampleState) = 512"
    "sdlStatus exampleState 2 \<noteq> SDL_AUDIO_STOPPED"
    by (simp_all add: exampleState_def)
  from open_keeps_device [OF same ret] before ret show ?thesis
    by auto
qed

subsection \<open>The WAV overlay\<close>

lemma wavConsumed_le: "wavConsumed E len s \<le> myWavLen s"
  by (simp add: wavConsumed_def Let_def not_less)

lemma wavConsumed_plain:
  "\<not> wavResampling E s \<Longrightarrow> wavConsumed E len s = min len (myWavLen s)"
  by (auto simp: wavConsumed_def wavScaledLen_def Let_def min_def)

lemma wavConsumed_exhausted: "myWavLen s = 0 \<Longrightarrow> wavConsumed E len s = 0"
  using wavConsumed_le [of E len s] by simp

lemma ptr_add_0: "ptr_add p 0 = p"
  by (cases p) (simp_all add: ptr_add_def)

lemma wavCvtBuffer_frame:
  "myWavPos (wavCvtBuffer E len s) = myWavPos s"
  "myWavLen (wavCvtBuffer E len s) = myWavLen s"
  "myWavBuffer (wavCvtBuffer E len s) = myWavBuffer s"
  "myWavLength (wavCvtBuffer E len s) = myWavLength s"
  by (simp_all add: wavCvtBuffer_def Let_def)

lemma wavCallback_cursor:
  "myWavPos (wavCallback E len s) = ptr_add (myWavPos s) (sint (wavConsumed E len s))"
  "myWavLen (wavCallback E len s) = myWavLen s - wavConsumed E len s"
  "myWavBuffer (wavCallback E len s) = myWavBuffer s"
  "myWavLength (wavCallback E len s) = myWavLength s"
  by (simp_all add: wavCallback_def Let_def wavCvtBuffer_frame wavConsumed_exhausted ptr_add_0)

text \<open>
  C10. The overlay length query returns 0 when no overlay buffer is resident. When one is
  resident it returns the remaining length \<open>myWavLen\<close>, not the total \<open>myWavLength\<close>;
  an overlay callback takes \<open>n\<close> bytes from the cursor (\<open>n\<close> is the requested length capped
  at the remaining length when no resampling is in effect), \<open>n\<close> never exceeds the value
  the query returned before, and the query afterwards returns that value minus \<open>n\<close>.
\<close>
theorem wavSize_remaining:
  "(myWavBuffer s = None \<longrightarrow> wavSize s = 0) \<and>
   (myWavBuffer s \<noteq> None \<longrightarrow>
      wavSize s = myWavLen s \<and>
      wavConsumed E len s \<le> wavSize s \<and>
      myWavPos (wavCallback E len s) = ptr_add (myWavPos s) (sint (wavConsumed E len s)) \<and>
      wavSize (wavCallback E len s) = wavSize s - wavConsumed E len s \<and>
      unat (wavSize (wavCallback E len s)) = unat (wavSize s) - unat (wavConsumed E len s) \<and>
      (\<not> wavResampling E s \<longrightarrow> wavConsumed E len s = min len (myWavLen s)))"
  by (simp add: wavSize_def wavCallback_cursor wavConsumed_le wavConsumed_plain unat_sub)

theorem wavSize_remaining_witness:
  "wavSize (exampleState\<lparr>myWavBuffer := None, myWavLen := 150\<rparr>) = 0 \<and>
   wavSize (exampleState\<lparr>myWavPos := Some 1050, myWavLen := 150\<rparr>) = 150 \<and>
   wavSize (wavCallback exampleEnv 64 (exampleState\<lparr>myWavPos := Some 1050, myWavLen := 150\<rparr>)) = 86 \<and>
   myWavPos (wavCallback exampleEnv 64 (exampleState\<lparr>myWavPos := Some 1050, myWavLen := 150\<rparr>))
     = Some 1114"
proof -
  let ?s = "exampleState\<lparr>myWavPos := Some 1050, myWavLen := 150\<rparr>"
  let ?n = "exampleState\<lparr>myWavBuffer := None, myWavLen := 150\<rparr>"
  have res: "myWavBuffer ?s \<noteq> None" "myWavLen ?s = 150" "myWavPos ?s = Some 1050"
    "\<not> wavResampling exampleEnv ?s"
    by (simp_all add: exampleState_def exampleEnv_def wavResampling_def)
  have non: "myWavBuffer ?n = None"
    by simp
  show ?thesis
    using wavSize_remaining [of ?n exampleEnv 64] wavSize_remaining [of ?s exampleEnv 64] res non
    by (simp add: ptr_add_def)
qed


text \<open>What \<open>playWav\<close> does on a resident file, for every offset and length.\<close>

lemma loadWav_resident:
  "fileName = myWavFilename s \<Longrightarrow> myWavBuffer s \<noteq> None \<Longrightarrow> loadWav E fileName s = (True, s)"
  by (auto simp: loadWav_def)

lemma loadWav_failed:
  "fileName \<noteq> myWavFilename s \<or> myWavBuffer s = None \<Longrightarrow> SDL_LoadWAV E fileName = None \<Longrightarrow>
     loadWav E fileName s = (False, s\<lparr>myWavBuffer := None\<rparr>)"
  by (auto simp: loadWav_def Let_def)

lemma loadWav_loaded:
  "fileName \<noteq> myWavFilename s \<or> myWavBuffer s = None \<Longrightarrow>
   SDL_LoadWAV E fileName = Some (spec, buf, n) \<Longrightarrow>
     loadWav E fileName s =
       (True, s\<lparr>myWavSpec := spec\<lparr>callback_fn := wav_callback\<rparr>,
                 myWavBuffer := Some buf, myWavLength := n\<rparr>)"
  by (auto simp: loadWav_def Let_def)

lemma playWav_offset_beyond:
  assumes "fileName = myWavFilename s" and "myWavBuffer s \<noteq> None"
      and "myWavLength s < position"
  shows "playWav E fileName position length' s = Inr (False, s)"
  using assms by (simp add: playWav_def loadWav_resident)

lemma playWav_remaining:
  assumes "fileName = myWavFilename s" and "myWavBuffer s = Some b"
      and "position \<le> myWavLength s"
      and "playWav E fileName position length' s = Inr (ok, s')"
  shows "myWavLen s' =
           (if length' \<noteq> 0 then min length' (myWavLength s - position) else myWavLength s) \<and>
         myWavPos s' = Some (b + unat position) \<and>
         myWavBuffer s' = Some b \<and> myWavLength s' = myWavLength s"
proof -
  have load: "loadWav E fileName s = (True, s)"
    using assms(1,2) by (simp add: loadWav_resident)
  have pos: "ptr_add (Some b) (uint position) = Some (b + unat position)"
    by (simp add: ptr_add_def nat_add_distrib)
  show ?thesis
    using assms(2-4) pos
    by (auto simp: playWav_def load Let_def not_less sdl_opened_def SDL_PauseAudioDevice_def
             split: if_splits sum.splits)
qed

text \<open>
  C1 on the code. The file \<open>a.wav\<close> is resident with 200 bytes; \<open>playWav\<close> with start
  offset 100 and length 0 succeeds and leaves 200 bytes to play from offset 100, where
  the claim has 200 - 100 = 100: for a zero length the source takes \<open>myWavLength\<close>,
  not \<open>myWavLength - position\<close>.
\<close>
theorem playWav_zero_length_from_offset:
  "playWav exampleEnv ''a.wav'' 100 0 exampleState =
     Inr (True, exampleState\<lparr>myWavPos := Some 1100, myWavLen := 200\<rparr>) \<and>
   myWavLength exampleState - 100 = 100"
  by (simp add: playWav_def loadWav_def exampleState_def exampleEnv_def ptr_add_def)

theorem playWav_zero_length_from_offset_witness:
  "wavSize (exampleState\<lparr>myWavPos := Some 1100, myWavLen := 200\<rparr>) = 200 \<and>
   (\<exists>s'. playWav exampleEnv ''a.wav'' 100 0 exampleState = Inr (True, s') \<and>
         myWavLen s' \<noteq> myWavLength exampleState - 100)"
  using playWav_zero_length_from_offset
  by (simp add: wavSize_def exampleState_def)

text \<open>
  C2 as stated fails: with \<open>a.wav\<close> resident at address 1000, playing a file that does
  not load returns failure and leaves no buffer resident.
\<close>
theorem playWav_failed_load_counterexample:
  "playWav exampleEnv ''missing.wav'' 0 0 exampleState =
     Inr (False, exampleState\<lparr>myWavBuffer := None\<rparr>) \<and>
   myWavBuffer exampleState = Some 1000"
  by (simp add: playWav_def loadWav_def exampleState_def exampleEnv_def)

text \<open>
  C2, as amended. A call of \<open>playWav\<close> fails whenever the file has to be loaded and does
  not load, or the start offset is beyond the length of the buffer (the resident one,
  or the one just loaded). When the requested file was already resident, so that
  nothing is loaded and the offset is the cause, the whole state is what it was before
  the call: buffer, cursor and remaining length included. When a load is attempted the
  previous buffer is released first and does not survive the failure: after a failed
  load no buffer is resident, and after a load rejected for its offset the newly loaded
  buffer is. In either case the overlay device is neither opened nor closed.
\<close>
theorem playWav_failure_frame:
  assumes "fileName \<noteq> myWavFilename s \<or> myWavBuffer s = None \<Longrightarrow>
             (case SDL_LoadWAV E fileName of
                None \<Rightarrow> True
              | Some (spec, buf, n) \<Rightarrow> n < position)"
      and "fileName = myWavFilename s \<and> myWavBuffer s \<noteq> None \<Longrightarrow> myWavLength s < position"
  shows "\<exists>s'. playWav E fileName position length' s = Inr (False, s') \<and>
           myWavDevice s' = myWavDevice s \<and> sdlStatus s' = sdlStatus s \<and>
           (if fileName \<noteq> myWavFilename s \<or> myWavBuffer s = None
            then myWavBuffer s' =
                   (case SDL_LoadWAV E fileName of
                      None \<Rightarrow> None
                    | Some (spec, buf, n) \<Rightarrow> Some buf)
            else s' = s)"
proof (cases "fileName \<noteq> myWavFilename s \<or> myWavBuffer s = None")
  case False
  then have res: "fileName = myWavFilename s" "myWavBuffer s \<noteq> None" by simp_all
  with assms(2) have "myWavLength s < position" by simp
  with res have "playWav E fileName position length' s = Inr (False, s)"
    by (simp add: playWav_offset_beyond)
  with res show ?thesis by auto
next
  case True
  show ?thesis
  proof (cases "SDL_LoadWAV E fileName")
    case None
    with True have "playWav E fileName position length' s = Inr (False, s\<lparr>myWavBuffer := None\<rparr>)"
      by (simp add: playWav_def loadWav_failed)
    with True None show ?thesis by simp
  next
    case (Some loaded)
    obtain spec buf n where loaded: "loaded = (spec, buf, n)"
      by (cases loaded) auto
    with assms(1) True Some have "n < position" by simp
    with True Some loaded
    have "playWav E fileName position length' s =
            Inr (False, s\<lparr>myWavSpec := spec\<lparr>callback_fn := wav_callback\<rparr>,
                          myWavBuffer := Some buf, myWavLength := n\<rparr>)"
      by (simp add: playWav_def loadWav_loaded)
    with True Some loaded show ?thesis by simp
  qed
qed

theorem playWav_failure_frame_witness:
  "playWav exampleEnv ''a.wav'' 250 0 exampleState = Inr (False, exampleState) \<and>
   (\<exists>s'. playWav exampleEnv ''missing.wav'' 0 0 exampleState = Inr (False, s') \<and>
         myWavDevice s' = 3 \<and> myWavBuffer s' = None) \<and>
   (\<exists>s'. playWav exampleEnv ''a.wav'' 250 0 (exampleState\<lparr>myWavFilename := ''b.wav''\<rparr>) =
           Inr (False, s') \<and>
         myWavDevice s' = 3 \<and> myWavBuffer s' = Some 1000)"
proof -
  let ?b = "exampleState\<lparr>myWavFilename := ''b.wav''\<rparr>"
  have st: "myWavFilename exampleState = ''a.wav''" "myWavBuffer exampleState = Some 1000"
    "myWavLength exampleState = 200" "myWavDevice exampleState = 3"
    by (simp_all add: exampleState_def)
  have env: "SDL_LoadWAV exampleEnv ''a.wav'' = Some (exampleWavSpec, 1000, 200)"
    "SDL_LoadWAV exampleEnv ''missing.wav'' = None"
    by (simp_all add: exampleEnv_def)
  show ?thesis
    using playWav_failure_frame
            [where fileName = "''a.wav''" and s = exampleState and E = exampleEnv
               and position = 250 and length' = 0]
          playWav_failure_frame
            [where fileName = "''missing.wav''" and s = exampleState and E = exampleEnv
               and position = 0 and length' = 0]
          playWav_failure_frame
            [where fileName = "''a.wav''" and s = ?b and E = exampleEnv
               and position = 250 and length' = 0]
          st env
    by auto
qed

text \<open>
  What the amended C2 leaves open. A failed load while another file is playing releases
  the buffer and keeps the cursor and the remaining length: here \<open>a.wav\<close> is playing from
  address 1000 with 200 bytes to go, the failed call leaves no buffer resident and 200
  bytes to go, and the next callback still advances the cursor through the released
  buffer. \<open>stopWav\<close> clears \<open>myWavLen\<close> before it releases the buffer; this path does not.
\<close>
lemma playWav_failed_load_keeps_cursor:
  "(case playWav exampleEnv ''missing.wav'' 0 0
           (exampleState\<lparr>myWavPos := Some 1000, myWavLen := 200\<rparr>) of
      Inl e \<Rightarrow> False
    | Inr (ok, s') \<Rightarrow>
        \<not> ok \<and> myWavBuffer s' = None \<and> wavSize s' = 0 \<and>
        myWavPos s' = Some 1000 \<and> myWavLen s' = 200 \<and>
        myWavPos (wavCallback exampleEnv 64 s') = Some 1064 \<and>
        myWavLen (wavCallback exampleEnv 64 s') = 136)"
  by (simp add: playWav_def loadWav_def exampleState_def exampleEnv_def ptr_add_def wavSize_def
                wavCallback_def wavConsumed_def wavScaledLen_def wavResampling_def)

text \<open>
  C3 on the code. From the state where the cursor plus the remaining length is the end
  of the 200-byte buffer at address 1000, \<open>playWav\<close> with offset 100 and length 0 succeeds
  with the cursor at 1100 and 200 bytes remaining, 100 bytes past the end of the buffer,
  and the next overlay callback takes all 200 bytes, up to address 1300.
\<close>
theorem playWav_overruns_buffer:
  "(case playWav exampleEnv ''a.wav'' 100 0 exampleState of
      Inl e \<Rightarrow> False
    | Inr (ok, s') \<Rightarrow>
        ok \<and> myWavBuffer s' = Some 1000 \<and> myWavLength s' = 200 \<and>
        myWavPos s' = Some 1100 \<and> myWavLen s' = 200 \<and>
        1000 + unat (myWavLength s') < 1100 + unat (myWavLen s') \<and>
        myWavPos (wavCallback exampleEnv 4096 s') = Some 1300 \<and>
        myWavLen (wavCallback exampleEnv 4096 s') = 0)"
  by (simp add: playWav_def loadWav_def exampleState_def exampleEnv_def ptr_add_def
                wavCallback_def wavConsumed_def wavScaledLen_def wavResampling_def)

theorem playWav_overruns_buffer_witness:
  "\<exists>ok s'. playWav exampleEnv ''a.wav'' 100 0 exampleState = Inr (ok, s') \<and>
     \<not> (1100 + unat (myWavLen s') \<le> 1000 + unat (myWavLength s'))"
  using playWav_overruns_buffer
  by (auto split: sum.splits)

subsection \<open>Volume scaling\<close>

text \<open>
  A pull, and so a whole fill, reads none of the fields \<open>setVolume\<close> writes: the resampler
  leaves the same cells whatever the volume setting is.
\<close>
lemma nextFragmentCallback_volume:
  "nextFragmentCallback
     (s\<lparr>myAudioSettings := a, myVolume := b, myVolumeFactor := c, myWavVolumeFactor := d\<rparr>) =
   (case nextFragmentCallback s of
      Inl e \<Rightarrow> Inl e
    | Inr (f, s') \<Rightarrow>
        Inr (f, s'\<lparr>myAudioSettings := a, myVolume := b, myVolumeFactor := c,
                   myWavVolumeFactor := d\<rparr>))"
  by (simp add: nextFragmentCallback_def Let_def split: option.splits prod.splits)

lemma run_fill_volume:
  "run_fill t
     (s\<lparr>myAudioSettings := a, myVolume := b, myVolumeFactor := c, myWavVolumeFactor := d\<rparr>) =
   (case run_fill t s of
      Inl e \<Rightarrow> Inl e
    | Inr (stream, r, s') \<Rightarrow>
        Inr (stream, r, s'\<lparr>myAudioSettings := a, myVolume := b, myVolumeFactor := c,
                           myWavVolumeFactor := d\<rparr>))"
proof (induction t arbitrary: s)
  case (Filled xs r0)
  show ?case by simp
next
  case (NextFragment k)
  show ?case
  proof (cases "nextFragmentCallback s")
    case (Inl e)
    then show ?thesis by (simp add: nextFragmentCallback_volume)
  next
    case (Inr res)
    obtain f s1 where res: "res = (f, s1)" by (cases res) auto
    with Inr NextFragment.IH [OF rangeI, of f s1] show ?thesis
      by (simp add: nextFragmentCallback_volume)
  qed
qed

lemma callback_after_setVolume:
  assumes "myIsInitializedFlag s" and "percent \<le> 100"
      and "myAudioQueue s \<noteq> None" and "myResampler s = Some r"
      and "run_fill (fillFragment E r (signed_drop_bit 2 len)) s = Inr (filled, r', s1)"
  shows "\<exists>s2. callback E len (setVolume E percent s) =
           Inr (FloatSamples
                  (map (\<lambda>x. fmul E x (fdiv E (float_of_int E (uint percent)) (float_of_int E 100)))
                       (take (unat (signed_drop_bit 2 len)) filled)
                     @ drop (unat (signed_drop_bit 2 len)) filled), s2)"
proof -
  let ?v = "fdiv E (float_of_int E (uint percent)) (float_of_int E 100)"
  obtain a d where sv: "setVolume E percent s =
      s\<lparr>myAudioSettings := a, myVolume := percent, myVolumeFactor := ?v,
        myWavVolumeFactor := d\<rparr>"
    using assms(1,2) by (simp add: setVolume_def Let_def)
  let ?U = "\<lambda>x. x\<lparr>myAudioSettings := a, myVolume := percent, myVolumeFactor := ?v,
                    myWavVolumeFactor := d\<rparr>"
  have fill: "run_fill (fillFragment E r (signed_drop_bit 2 len)) (?U s) = Inr (filled, r', ?U s1)"
    using assms(5) by (simp add: run_fill_volume)
  have bound: "myAudioQueue (?U s) \<noteq> None" "myResampler (?U s) = Some r"
    using assms(3,4) by simp_all
  have "processFragment E (signed_drop_bit 2 len) (?U s) =
          Inr (map (\<lambda>x. fmul E x (myVolumeFactor (?U s)))
                   (take (unat (signed_drop_bit 2 len)) filled)
                 @ drop (unat (signed_drop_bit 2 len)) filled,
               (?U s1)\<lparr>myResampler := Some r'\<rparr>)"
    using bound(2) fill by (rule processFragment_scaled)
  with bound(1) show ?thesis
    by (simp add: sv callback_def)
qed

text \<open>
  Two roundings of relative error at most \<open>eps\<close>, one of the factor and one of the
  product, give a relative error of at most \<open>2 * eps + eps\<^sup>2\<close>.
\<close>
lemma rounded_product:
  fixes eps q f x out :: "'a::linordered_field"
  assumes "0 \<le> eps" and "0 \<le> q"
      and "\<bar>f - q\<bar> \<le> eps * q"
      and "\<bar>out - x * f\<bar> \<le> eps * \<bar>x * f\<bar>"
  shows "\<bar>out - x * q\<bar> \<le> (2 * eps + eps\<^sup>2) * \<bar>x * q\<bar>"
proof -
  have "\<bar>f\<bar> \<le> \<bar>q\<bar> + \<bar>f - q\<bar>"
    using abs_triangle_ineq [of q "f - q"] by simp
  with assms(2,3) have f_le: "\<bar>f\<bar> \<le> q + eps * q"
    by simp
  have "\<bar>out - x * q\<bar> \<le> \<bar>out - x * f\<bar> + \<bar>x * f - x * q\<bar>"
    using abs_triangle_ineq [of "out - x * f" "x * f - x * q"] by simp
  also have "\<bar>x * f - x * q\<bar> = \<bar>x\<bar> * \<bar>f - q\<bar>"
    by (simp only: right_diff_distrib [symmetric] abs_mult)
  also have "\<bar>out - x * f\<bar> + \<bar>x\<bar> * \<bar>f - q\<bar> \<le> eps * (\<bar>x\<bar> * (q + eps * q)) + \<bar>x\<bar> * (eps * q)"
  proof (rule add_mono)
    have "\<bar>out - x * f\<bar> \<le> eps * (\<bar>x\<bar> * \<bar>f\<bar>)"
      using assms(4) by (simp only: abs_mult)
    also have "\<bar>x\<bar> * \<bar>f\<bar> \<le> \<bar>x\<bar> * (q + eps * q)"
      using f_le by (rule mult_left_mono) simp
    then have "eps * (\<bar>x\<bar> * \<bar>f\<bar>) \<le> eps * (\<bar>x\<bar> * (q + eps * q))"
      using assms(1) by (rule mult_left_mono)
    finally show "\<bar>out - x * f\<bar> \<le> eps * (\<bar>x\<bar> * (q + eps * q))" .
    show "\<bar>x\<bar> * \<bar>f - q\<bar> \<le> \<bar>x\<bar> * (eps * q)"
      using assms(3) by (rule mult_left_mono) simp
  qed
  also have "eps * (\<bar>x\<bar> * (q + eps * q)) + \<bar>x\<bar> * (eps * q) = (2 * eps + eps\<^sup>2) * (\<bar>x\<bar> * q)"
    by (simp add: power2_eq_square algebra_simps)
  also have "\<bar>x\<bar> * q = \<bar>x * q\<bar>"
    using assms(2) by (simp add: abs_mult)
  finally show ?thesis .
qed


lemma rounded_zero:
  fixes eps y :: "'a::linordered_field"
  shows "\<bar>y - 0\<bar> \<le> eps * 0 \<Longrightarrow> y = 0"
  by simp

text \<open>
  C9. Let \<open>filled\<close> be the cells the resampler leaves for a callback of \<open>len\<close> bytes, on an
  initialized engine with a queue bound. For every volume setting \<open>p\<close> of 0..100 the
  callback after \<open>setVolume(p)\<close> returns float cells, as many as the resampler left, and
  each of the first \<open>len >> 2\<close> is the float product of the resampler's cell and the float
  quotient of \<open>p\<close> and 100. Float values are read as numbers of an ordered field
  (finite values only) under the usual rounding model: integers of 0..100 convert
  exactly, and the quotient and each product formed are within relative error \<open>eps\<close> of
  the exact ones (\<open>eps = 0\<close> is exact arithmetic). Then every emitted cell is within
  relative error \<open>2 * eps + eps\<^sup>2\<close> of the resampler's cell times \<open>p / 100\<close>; twice the
  cell emitted at volume 50 differs from the cell emitted at volume 100 by at most
  \<open>2 * (2 * eps + eps\<^sup>2)\<close> times the size of the resampler's cell; and at volume 0
  every emitted cell is 0, whatever the resampler left.
\<close>
theorem volume_scaling_linear:
  fixes E :: "('f::linordered_field, 'r) Env"
  assumes init: "myIsInitializedFlag s"
      and queue: "myAudioQueue s \<noteq> None"
      and resampler: "myResampler s = Some r"
      and fill: "run_fill (fillFragment E r (signed_drop_bit 2 len)) s = Inr (filled, r', s1)"
      and eps: "0 \<le> eps"
      and conv: "\<And>k. 0 \<le> k \<Longrightarrow> k \<le> 100 \<Longrightarrow> float_of_int E k = of_int k"
      and quot: "\<And>k. 0 \<le> k \<Longrightarrow> k \<le> 100 \<Longrightarrow>
                   \<bar>fdiv E (of_int k) (of_int 100) - of_int k / 100\<bar> \<le> eps * (of_int k / 100)"
      and prod: "\<And>x k. x \<in> set filled \<Longrightarrow> 0 \<le> k \<Longrightarrow> k \<le> 100 \<Longrightarrow>
                   \<bar>fmul E x (fdiv E (of_int k) (of_int 100)) - x * fdiv E (of_int k) (of_int 100)\<bar>
                     \<le> eps * \<bar>x * fdiv E (of_int k) (of_int 100)\<bar>"
  shows "(\<forall>p. p \<le> 100 \<longrightarrow>
            (\<exists>s2. callback E len (setVolume E p s) = Inr (FloatSamples (emittedSamples E len p s), s2)) \<and>
            length (emittedSamples E len p s) = length filled \<and>
            (\<forall>i. i < unat (signed_drop_bit 2 len) \<and> i < length filled \<longrightarrow>
               emittedSamples E len p s ! i =
                 fmul E (filled ! i) (fdiv E (float_of_int E (uint p)) (float_of_int E 100)) \<and>
               \<bar>emittedSamples E len p s ! i - filled ! i * (of_int (uint p) / 100)\<bar>
                 \<le> (2 * eps + eps\<^sup>2) * \<bar>filled ! i * (of_int (uint p) / 100)\<bar>)) \<and>
         (\<forall>i. i < unat (signed_drop_bit 2 len) \<and> i < length filled \<longrightarrow>
            \<bar>2 * emittedSamples E len 50 s ! i - emittedSamples E len 100 s ! i\<bar>
              \<le> 2 * (2 * eps + eps\<^sup>2) * \<bar>filled ! i\<bar> \<and>
            emittedSamples E len 0 s ! i = 0)"
proof -
  let ?n = "unat (signed_drop_bit 2 len)"
  let ?v = "\<lambda>p :: uInt32. fdiv E (float_of_int E (uint p)) (float_of_int E 100)"
  let ?c = "2 * eps + eps\<^sup>2"
  have emitted: "\<exists>s2. callback E len (setVolume E p s) = Inr (FloatSamples (emittedSamples E len p s), s2)"
    and emitted_eq: "emittedSamples E len p s =
           map (\<lambda>x. fmul E x (?v p)) (take ?n filled) @ drop ?n filled"
    if "p \<le> 100" for p
  proof -
    from callback_after_setVolume [OF init that queue resampler fill]
    obtain s2 where "callback E len (setVolume E p s) =
        Inr (FloatSamples (map (\<lambda>x. fmul E x (?v p)) (take ?n filled) @ drop ?n filled), s2)"
      by blast
    then show "emittedSamples E len p s =
           map (\<lambda>x. fmul E x (?v p)) (take ?n filled) @ drop ?n filled"
      and "\<exists>s2. callback E len (setVolume E p s) = Inr (FloatSamples (emittedSamples E len p s), s2)"
      by (simp_all add: emittedSamples_def)
  qed
  have sample: "emittedSamples E len p s ! i = fmul E (filled ! i) (?v p)"
    if "p \<le> 100" "i < ?n" "i < length filled" for p i
    using that by (simp add: emitted_eq nth_append)
  have range: "0 \<le> uint p \<and> uint p \<le> 100" if "p \<le> 100" for p :: uInt32
    using that by (simp add: word_le_def)
  have factor: "\<bar>?v p - of_int (uint p) / 100\<bar> \<le> eps * (of_int (uint p) / 100)"
    if "p \<le> 100" for p
    using range [OF that] quot [of "uint p"] conv [of "uint p"] conv [of 100] by simp
  have near: "\<bar>emittedSamples E len p s ! i - filled ! i * (of_int (uint p) / 100)\<bar>
                \<le> ?c * \<bar>filled ! i * (of_int (uint p) / 100)\<bar>"
    if "p \<le> 100" "i < ?n" "i < length filled" for p i
  proof -
    have "filled ! i \<in> set filled" using that(3) by simp
    then have "\<bar>fmul E (filled ! i) (?v p) - filled ! i * ?v p\<bar> \<le> eps * \<bar>filled ! i * ?v p\<bar>"
      using range [OF that(1)] prod [of "filled ! i" "uint p"] conv [of "uint p"] conv [of 100]
      by simp
    moreover have "(0::'f) \<le> of_int (uint p)"
      by (simp only: of_int_0_le_iff uint_nonnegative)
    then have "(0::'f) \<le> of_int (uint p) / 100"
      by (rule divide_nonneg_nonneg) simp
    ultimately show ?thesis
      using rounded_product [OF eps _ factor [OF that(1)]] sample [OF that]
      by simp
  qed
  have half: "\<bar>2 * emittedSamples E len 50 s ! i - emittedSamples E len 100 s ! i\<bar>
                \<le> 2 * ?c * \<bar>filled ! i\<bar>"
    if "i < ?n" "i < length filled" for i
  proof -
    let ?x = "filled ! i"
    have a: "\<bar>emittedSamples E len 50 s ! i - ?x * (1 / 2)\<bar> \<le> ?c * \<bar>?x * (1 / 2)\<bar>"
      using near [of 50 i] that by simp
    have b: "\<bar>emittedSamples E len 100 s ! i - ?x\<bar> \<le> ?c * \<bar>?x\<bar>"
      using near [of 100 i] that by simp
    have "\<bar>2 * emittedSamples E len 50 s ! i - emittedSamples E len 100 s ! i\<bar>
            \<le> 2 * \<bar>emittedSamples E len 50 s ! i - ?x * (1 / 2)\<bar>
              + \<bar>emittedSamples E len 100 s ! i - ?x\<bar>"
      by (simp add: abs_if split: if_splits) 
    also have "\<dots> \<le> 2 * (?c * \<bar>?x * (1 / 2)\<bar>) + ?c * \<bar>?x\<bar>"
      using a b by (intro add_mono mult_left_mono) simp_all
    also have "\<dots> = 2 * ?c * \<bar>?x\<bar>"
      by (simp add: abs_mult)
    finally show ?thesis .
  qed
  have zero: "emittedSamples E len 0 s ! i = 0"
    if "i < ?n" "i < length filled" for i
    using near [of 0 i] that by simp
  show ?thesis
    using emitted emitted_eq sample near half zero
    by (intro conjI allI impI) simp_all
qed


theorem volume_scaling_linear_witness:
  "length (emittedSamples exampleEnv 16 50 exampleState) = 4 \<and>
   emittedSamples exampleEnv 16 50 exampleState ! 1 = 10 \<and>
   emittedSamples exampleEnv 16 100 exampleState ! 1 = 20 \<and>
   2 * emittedSamples exampleEnv 16 50 exampleState ! 1 =
     emittedSamples exampleEnv 16 100 exampleState ! 1 \<and>
   emittedSamples exampleEnv 16 0 exampleState ! 1 = 0"
proof -
  have st: "myIsInitializedFlag exampleState" "myAudioQueue exampleState \<noteq> None"
    "myResampler exampleState = Some 0"
    by (simp_all add: exampleState_def)
  have conv: "float_of_int exampleEnv k = of_int k" for k
    by (simp add: exampleEnv_def)
  have quot: "\<bar>fdiv exampleEnv (of_int k) (of_int 100) - of_int k / 100\<bar> \<le> 0 * (of_int k / 100)"
    for k
    by (simp add: exampleEnv_def)
  have prod: "\<bar>fmul exampleEnv x (fdiv exampleEnv (of_int k) (of_int 100))
                - x * fdiv exampleEnv (of_int k) (of_int 100)\<bar>
              \<le> 0 * \<bar>x * fdiv exampleEnv (of_int k) (of_int 100)\<bar>" for x k
    by (simp add: exampleEnv_def)
  have ops: "fmul exampleEnv = (\<lambda>x y. x * y)" "fdiv exampleEnv = (\<lambda>x y. x / y)"
    by (simp_all add: exampleEnv_def)
  have n: "unat (signed_drop_bit 2 (16 :: cint)) = 4"
    by simp
  note all = volume_scaling_linear
               [where E = exampleEnv and s = exampleState and len = 16 and r = 0
                  and filled = "[10, 20, 0, 0]" and r' = "Suc 0" and eps = 0,
                OF st example_fill order_refl conv quot prod]
  note per = all [THEN conjunct1, rule_format]
  note len50 = per [of 50, THEN conjunct2, THEN conjunct1]
  note at50 = per [of 50, THEN conjunct2, THEN conjunct2, rule_format, of 1, THEN conjunct1]
  note at100 = per [of 100, THEN conjunct2, THEN conjunct2, rule_format, of 1, THEN conjunct1]
  note rel = all [THEN conjunct2, rule_format, of 1]
  have p50: "length (emittedSamples exampleEnv 16 50 exampleState) = 4"
      "emittedSamples exampleEnv 16 50 exampleState ! 1 = 10"
    using len50 at50 by (simp_all add: n conv ops)
  have p100: "emittedSamples exampleEnv 16 100 exampleState ! 1 = 20"
    using at100 by (simp add: n conv ops)
  have p0: "emittedSamples exampleEnv 16 0 exampleState ! 1 = 0"
    using rel by (simp add: n)
  from p50 p100 p0 show ?thesis by simp
qed

end
